theory Spec2Isabelle
  imports Complex_Main "HOL-Library.Word"
begin

section \<open>Python values used by the Brooks GF1xx driver\<close>

text \<open>
  Exceptions of the Python source are values. \<open>ExternalError\<close> stands for whatever the
  fieldbus master stack (pysoem) or the operating system raises: any \<open>Exception\<close> that is
  none of the built-in ones named here.
\<close>

datatype py_error =
    StructError
  | ValueError
  | IndexError
  | AttributeError
  | OverflowError
  | ZeroDivisionError
  | ExternalError

type_synonym byte = "8 word"

subsection \<open>Floats\<close>

text \<open>
  A Python \<open>float\<close> is an IEEE 754 binary64 value: a finite number (held here by its exact
  real value, \<open>Fin 0\<close> being \<open>+0.0\<close>), negative zero, an infinity or NaN. The
  operations below return binary64 values when given binary64 values; a statement over all
  of \<open>pyfloat\<close> covers every float and more.
\<close>

datatype pyfloat = Fin real | NegZero | PInf | NInf | NaN

fun is_nan :: "pyfloat \<Rightarrow> bool" where
  "is_nan NaN = True"
| "is_nan _ = False"

fun is_inf :: "pyfloat \<Rightarrow> bool" where
  "is_inf PInf = True"
| "is_inf NInf = True"
| "is_inf _ = False"

fun is_zero :: "pyfloat \<Rightarrow> bool" where
  "is_zero (Fin r) = (r = 0)"
| "is_zero NegZero = True"
| "is_zero _ = False"

fun sign_bit :: "pyfloat \<Rightarrow> bool" where
  "sign_bit (Fin r) = (r < 0)"
| "sign_bit NegZero = True"
| "sign_bit NInf = True"
| "sign_bit _ = False"

fun mag :: "pyfloat \<Rightarrow> real" where
  "mag (Fin r) = \<bar>r\<bar>"
| "mag _ = 0"

text \<open>Position on the extended number line: the level orders the infinities around the
  finite values, the value orders the finite ones (both zeros are 0).\<close>

fun lvl :: "pyfloat \<Rightarrow> int" where
  "lvl NInf = -1"
| "lvl PInf = 1"
| "lvl _ = 0"

fun fin_val :: "pyfloat \<Rightarrow> real" where
  "fin_val (Fin r) = r"
| "fin_val _ = 0"

text \<open>Python's \<open>a < b\<close> and \<open>a <= b\<close> on floats: false as soon as one side is NaN.\<close>

definition float_lt :: "pyfloat \<Rightarrow> pyfloat \<Rightarrow> bool" where
  "float_lt a b =
     (\<not> is_nan a \<and> \<not> is_nan b \<and> (lvl a < lvl b \<or> (lvl a = lvl b \<and> fin_val a < fin_val b)))"

definition float_le :: "pyfloat \<Rightarrow> pyfloat \<Rightarrow> bool" where
  "float_le a b =
     (\<not> is_nan a \<and> \<not> is_nan b \<and> (lvl a < lvl b \<or> (lvl a = lvl b \<and> fin_val a \<le> fin_val b)))"

text \<open>
  The built-ins \<open>min(a, b)\<close> and \<open>max(a, b)\<close> keep the first argument unless the second
  compares strictly smaller (larger): \<open>min\<close> tests \<open>b < a\<close>, \<open>max\<close> tests \<open>b > a\<close>.
\<close>

definition py_min :: "pyfloat \<Rightarrow> pyfloat \<Rightarrow> pyfloat" where
  "py_min a b = (if float_lt b a then b else a)"

definition py_max :: "pyfloat \<Rightarrow> pyfloat \<Rightarrow> pyfloat" where
  "py_max a b = (if float_lt a b then b else a)"

subsection \<open>Rounding to a binary floating-point format\<close>

definition pow2 :: "int \<Rightarrow> real" where
  "pow2 e = (if 0 \<le> e then 2 ^ nat e else 1 / 2 ^ nat (- e))"

fun blen :: "nat \<Rightarrow> nat" where
  "blen n = (if n = 0 then 0 else Suc (blen (n div 2)))"

declare blen.simps [simp del]

text \<open>\<open>floor_log2 a\<close> is the \<open>k\<close> with \<open>2^k \<le> a < 2^(k+1)\<close>, for \<open>a > 0\<close>.\<close>

definition floor_log2 :: "real \<Rightarrow> int" where
  "floor_log2 a =
     (if 1 \<le> a then int (blen (nat \<lfloor>a\<rfloor>)) - 1
      else - int (blen (nat (\<lceil>1 / a\<rceil> - 1))))"

text \<open>Round a non-negative real to the nearest integer, ties to the even one.\<close>

definition rne :: "real \<Rightarrow> int" where
  "rne q =
     (let f = \<lfloor>q\<rfloor>; r = q - of_int f
      in if r < 1 / 2 then f
         else if 1 / 2 < r then f + 1
         else if even f then f else f + 1)"

text \<open>
  \<open>round_me p emin a\<close> rounds \<open>a > 0\<close> to \<open>p\<close> significant bits with least exponent
  \<open>emin\<close> (below it the format is subnormal): the result is \<open>m * 2^e\<close>.
\<close>

definition round_me :: "nat \<Rightarrow> int \<Rightarrow> real \<Rightarrow> int \<times> int" where
  "round_me p emin a =
     (let e = max (floor_log2 a - (int p - 1)) emin
      in (rne (a / pow2 e), e))"

definition signed_zero :: "bool \<Rightarrow> pyfloat" where
  "signed_zero neg = (if neg then NegZero else Fin 0)"

definition signed_inf :: "bool \<Rightarrow> pyfloat" where
  "signed_inf neg = (if neg then NInf else PInf)"

text \<open>The binary64 result of an operation whose exact result has sign \<open>neg\<close> and
  magnitude \<open>a\<close>: round to nearest even, overflow to infinity, underflow to zero.\<close>

definition round_double :: "bool \<Rightarrow> real \<Rightarrow> pyfloat" where
  "round_double neg a =
     (if a = 0 then signed_zero neg
      else
        let (m, e) = round_me 53 (- 1074) a;
            v = of_int m * pow2 e
        in if m = 0 then signed_zero neg
           else if pow2 1024 \<le> v then signed_inf neg
           else Fin (if neg then - v else v))"

text \<open>\<open>a * b\<close> on floats never raises.\<close>

definition float_mul :: "pyfloat \<Rightarrow> pyfloat \<Rightarrow> pyfloat" where
  "float_mul a b =
     (if is_nan a \<or> is_nan b then NaN
      else
        let neg = (sign_bit a \<noteq> sign_bit b)
        in if is_inf a \<or> is_inf b then (if is_zero a \<or> is_zero b then NaN else signed_inf neg)
           else round_double neg (mag a * mag b))"

text \<open>\<open>a / b\<close> on floats raises ZeroDivisionError for a zero divisor, whatever \<open>a\<close> is.\<close>

definition float_truediv :: "pyfloat \<Rightarrow> pyfloat \<Rightarrow> py_error + pyfloat" where
  "float_truediv a b =
     (if is_zero b then Inl ZeroDivisionError
      else Inr
        (if is_nan a \<or> is_nan b then NaN
         else
           let neg = (sign_bit a \<noteq> sign_bit b)
           in if is_inf a then (if is_inf b then NaN else signed_inf neg)
              else if is_inf b then signed_zero neg
              else round_double neg (mag a / mag b)))"

subsection \<open>The struct module: binary32 little-endian\<close>

definition py_slice :: "nat \<Rightarrow> nat \<Rightarrow> 'a list \<Rightarrow> 'a list" where
  "py_slice a b xs = take (b - a) (drop a xs)"

definition le_u32 :: "byte list \<Rightarrow> nat" where
  "le_u32 bs = unat (bs ! 0) + 256 * unat (bs ! 1) + 65536 * unat (bs ! 2) + 16777216 * unat (bs ! 3)"

definition float32_of_bits :: "nat \<Rightarrow> pyfloat" where
  "float32_of_bits n =
     (let neg = (n div 2147483648 = 1);
          ex = (n div 8388608) mod 256;
          man = n mod 8388608
      in if ex = 255 then (if man = 0 then signed_inf neg else NaN)
         else if ex = 0 \<and> man = 0 then signed_zero neg
         else
           let m = (if ex = 0 then of_nat man * pow2 (- 149)
                    else of_nat (8388608 + man) * pow2 (int ex - 150))
           in Fin (if neg then - m else m))"

text \<open>\<open>struct.unpack('<f', buf)[0]\<close>: struct.error unless the buffer has exactly 4 bytes.\<close>

definition struct_unpack_f :: "byte list \<Rightarrow> py_error + pyfloat" where
  "struct_unpack_f buf =
     (if length buf \<noteq> 4 then Inl StructError else Inr (float32_of_bits (le_u32 buf)))"

definition le_bytes4 :: "nat \<Rightarrow> byte list" where
  "le_bytes4 n =
     [of_nat (n mod 256), of_nat ((n div 256) mod 256),
      of_nat ((n div 65536) mod 256), of_nat ((n div 16777216) mod 256)]"

text \<open>The binary32 bit pattern of a float; OverflowError ("float too large to pack with
  f format") when a finite value rounds beyond the largest binary32 number.\<close>

definition float32_bits :: "pyfloat \<Rightarrow> py_error + nat" where
  "float32_bits x =
     (case x of
        NaN \<Rightarrow> Inr 2143289344
      | PInf \<Rightarrow> Inr 2139095040
      | NInf \<Rightarrow> Inr 4286578688
      | NegZero \<Rightarrow> Inr 2147483648
      | Fin r \<Rightarrow>
          if r = 0 then Inr 0
          else
            let s = (if r < 0 then 2147483648 else 0);
                (m, e) = round_me 24 (- 149) \<bar>r\<bar>
            in if m < 8388608 then Inr (s + nat m)
               else
                 let (m', e') = (if m = 16777216 then (8388608, e + 1) else (m, e));
                     bex = e' + 150
                 in if 255 \<le> bex then Inl OverflowError
                    else Inr (s + nat bex * 8388608 + nat (m' - 8388608)))"

definition bind_r :: "'e + 'a \<Rightarrow> ('a \<Rightarrow> 'e + 'b) \<Rightarrow> 'e + 'b" where
  "bind_r m f = (case m of Inl e \<Rightarrow> Inl e | Inr v \<Rightarrow> f v)"

definition struct_pack_f :: "pyfloat \<Rightarrow> py_error + byte list" where
  "struct_pack_f x = bind_r (float32_bits x) (\<lambda>n. Inr (le_bytes4 n))"

text \<open>\<open>struct.pack('<fBfI', f, b, g, i)\<close>: 13 bytes, no padding; struct.error when an
  integer argument is out of the range of its field.\<close>

definition struct_pack_fBfI :: "pyfloat \<Rightarrow> int \<Rightarrow> pyfloat \<Rightarrow> int \<Rightarrow> py_error + byte list" where
  "struct_pack_fBfI f b g i =
     bind_r (struct_pack_f f) (\<lambda>fb.
       if b < 0 \<or> 255 < b then Inl StructError
       else bind_r (struct_pack_f g) (\<lambda>gb.
         if i < 0 \<or> 4294967295 < i then Inl StructError
         else Inr (fb @ [of_int b] @ gb @ le_bytes4 (nat i))))"

section \<open>The channel driver: class BrooksDriver\<close>

text \<open>
  A slave object of the master stack, as far as the driver touches it: the process-data
  buffers \<open>input\<close> and \<open>output\<close> (bytes, or None; fields \<open>slave_input\<close> and
  \<open>slave_output\<close> here), the acyclic object read \<open>sdo_read\<close>
  (which returns bytes or None, or raises), and what assigning to \<open>output\<close> raises, if
  anything.
\<close>

record pysoem_slave =
  slave_input :: "byte list option"
  slave_output :: "byte list option"
  sdo_read :: "nat \<Rightarrow> nat \<Rightarrow> nat \<Rightarrow> py_error + byte list option"
  output_write_error :: "py_error option"

record ControllerData =
  timestamp :: pyfloat
  flow :: pyfloat
  pressure :: pyfloat
  temperature :: pyfloat
  setpoint :: pyfloat

record BrooksDriver =
  slave :: "pysoem_slave option"
  controller_id :: int
  full_scale :: pyfloat
  stored_setpoint :: pyfloat

definition SDO_FULL_SCALE_INDEX :: nat where
  "SDO_FULL_SCALE_INDEX = 8451"

definition SDO_FULL_SCALE_SUBINDEX :: nat where
  "SDO_FULL_SCALE_SUBINDEX = 0"

text \<open>
  \<open>_read_full_scale\<close>: every exception of the body is caught (\<open>except Exception\<close>), so the
  method returns a flag and the driver it leaves behind. A driver without a slave fails
  with AttributeError at \<open>self.slave.sdo_read\<close>.
\<close>

definition read_full_scale :: "BrooksDriver \<Rightarrow> bool \<times> BrooksDriver" where
  "read_full_scale d =
     (case (case slave d of
              None \<Rightarrow> Inl AttributeError
            | Some s \<Rightarrow> sdo_read s SDO_FULL_SCALE_INDEX SDO_FULL_SCALE_SUBINDEX 4) of
        Inl e \<Rightarrow> (False, d)
      | Inr None \<Rightarrow> (False, d)
      | Inr (Some data) \<Rightarrow>
          if data \<noteq> [] \<and> 4 \<le> length data then
            (case struct_unpack_f (py_slice 0 4 data) of
               Inl e \<Rightarrow> (False, d)
             | Inr fs \<Rightarrow>
                 if float_le (Fin 1) fs \<and> float_le fs (Fin 1000000)
                 then (True, d\<lparr>full_scale := fs\<rparr>)
                 else (False, d))
          else (False, d))"

text \<open>\<open>__init__\<close>: default scale 30000.0, setpoint 0.0, then the scale discovery.\<close>

definition BrooksDriver_init :: "pysoem_slave option \<Rightarrow> int \<Rightarrow> BrooksDriver" where
  "BrooksDriver_init s cid =
     snd (read_full_scale
       \<lparr>slave = s, controller_id = cid, full_scale = Fin 30000, stored_setpoint = Fin 0\<rparr>)"

text \<open>
  \<open>read_data\<close>, with \<open>now\<close> the value of \<open>time.time()\<close>. The handler
  \<open>except (struct.error, IndexError)\<close> turns these two into None; anything else the body
  raises leaves the method.
\<close>

definition read_data :: "pyfloat \<Rightarrow> BrooksDriver \<Rightarrow> py_error + ControllerData option" where
  "read_data now d =
     (case slave d of
        None \<Rightarrow> Inr None
      | Some s \<Rightarrow>
          (case slave_input s of
             None \<Rightarrow> Inr None
           | Some inp \<Rightarrow>
               if inp = [] \<or> length inp < 13 then Inr None
               else
                 (case
                    bind_r (struct_unpack_f (py_slice 1 5 inp)) (\<lambda>flow_raw.
                    bind_r (struct_unpack_f (py_slice 5 9 inp)) (\<lambda>pressure_psi.
                    bind_r (struct_unpack_f (py_slice 9 13 inp)) (\<lambda>temp.
                    bind_r (float_truediv flow_raw (Fin 100)) (\<lambda>flow_percent.
                    bind_r (float_truediv (float_mul flow_percent (full_scale d)) (Fin 100))
                      (\<lambda>flow_sccm.
                    Inr \<lparr>timestamp = now, flow = flow_sccm, pressure = pressure_psi,
                         temperature = temp, setpoint = stored_setpoint d\<rparr>)))))
                  of
                    Inr smp \<Rightarrow> Inr (Some smp)
                  | Inl e \<Rightarrow> if e = StructError \<or> e = IndexError then Inr None else Inl e)))"

text \<open>
  \<open>write_setpoint\<close>: the guard, then under the lock the clamp, the store of the clamped
  value, the encoding and the assignment to the output buffer. The handler
  \<open>except (struct.error, ValueError)\<close> returns False; any other exception leaves the
  method. The driver returned beside the result is the state the call leaves behind, also
  when it raises.
\<close>

definition write_setpoint :: "pyfloat \<Rightarrow> BrooksDriver \<Rightarrow> (py_error + bool) \<times> BrooksDriver" where
  "write_setpoint sp d =
     (case slave d of
        None \<Rightarrow> (Inr False, d)
      | Some s \<Rightarrow>
          if slave_output s = None \<or> slave_output s = Some [] then (Inr False, d)
          else
            let sp' = py_max (Fin 0) (py_min sp (full_scale d));
                d1 = d\<lparr>stored_setpoint := sp'\<rparr>;
                handler = (\<lambda>e. if e = StructError \<or> e = ValueError then Inr False else Inl e)
            in (case struct_pack_fBfI sp' 0 (Fin 0) 0 of
                  Inl e \<Rightarrow> (handler e, d1)
                | Inr output_data \<Rightarrow>
                    (case output_write_error s of
                       Some e \<Rightarrow> (handler e, d1)
                     | None \<Rightarrow> (Inr True, d1\<lparr>slave := Some (s\<lparr>slave_output := Some output_data\<rparr>)\<rparr>))))"

definition get_setpoint :: "BrooksDriver \<Rightarrow> pyfloat" where
  "get_setpoint d = stored_setpoint d"

text \<open>
  What can happen to a driver between construction and teardown: a call of
  \<open>write_setpoint\<close> (its result is dropped here, the caller goes on whatever it was),
  or the bus replacing the process-data buffers of the slave.
\<close>

datatype driver_event =
    Write pyfloat
  | BusUpdate "byte list option" "byte list option"

fun driver_step :: "BrooksDriver \<Rightarrow> driver_event \<Rightarrow> BrooksDriver" where
  "driver_step d (Write sp) = snd (write_setpoint sp d)"
| "driver_step d (BusUpdate i out) =
     d\<lparr>slave := map_option (\<lambda>s. s\<lparr>slave_input := i, slave_output := out\<rparr>) (slave d)\<rparr>"

definition run_events :: "BrooksDriver \<Rightarrow> driver_event list \<Rightarrow> BrooksDriver" where
  "run_events d evs = foldl driver_step d evs"

text \<open>The stored setpoint lies in \<open>[0, full_scale]\<close>, in Python's own comparisons.\<close>

definition setpoint_in_range :: "BrooksDriver \<Rightarrow> bool" where
  "setpoint_in_range d =
     (float_le (Fin 0) (get_setpoint d) \<and> float_le (get_setpoint d) (full_scale d))"

text \<open>Slaves and frames used in the examples below.\<close>

definition no_sdo :: "nat \<Rightarrow> nat \<Rightarrow> nat \<Rightarrow> py_error + byte list option" where
  "no_sdo idx sub n = Inl ExternalError"

definition sdo_reply :: "byte list \<Rightarrow> nat \<Rightarrow> nat \<Rightarrow> nat \<Rightarrow> py_error + byte list option" where
  "sdo_reply bs idx sub n =
     (if idx = SDO_FULL_SCALE_INDEX \<and> sub = SDO_FULL_SCALE_SUBINDEX then Inr (Some bs)
      else Inl ExternalError)"

definition zero_frame :: "byte list" where
  "zero_frame = [0, 0, 0, 0, 0, 0, 0, 0, 0, 0, 0, 0, 0]"

definition mapped_slave :: "byte list \<Rightarrow> pysoem_slave" where
  "mapped_slave frame =
     \<lparr>slave_input = Some frame, slave_output = Some zero_frame, sdo_read = no_sdo,
      output_write_error = None\<rparr>"

definition unmapped_slave :: pysoem_slave where
  "unmapped_slave =
     \<lparr>slave_input = Some [], slave_output = Some [], sdo_read = no_sdo, output_write_error = None\<rparr>"

text \<open>Status 0, raw flow 5000.0, pressure 14.5, temperature 23.5.\<close>

definition frame_5000 :: "byte list" where
  "frame_5000 = [0, 0, 64, 156, 69, 0, 0, 104, 65, 0, 0, 188, 65]"

definition reply_slave :: "byte list \<Rightarrow> pysoem_slave" where
  "reply_slave bs =
     \<lparr>slave_input = Some [], slave_output = Some [], sdo_read = sdo_reply bs,
      output_write_error = None\<rparr>"

text \<open>The scale in use is a finite number in \<open>[1, 1000000]\<close>.\<close>

definition scale_ok :: "BrooksDriver \<Rightarrow> bool" where
  "scale_ok d = (float_le (Fin 1) (full_scale d) \<and> float_le (full_scale d) (Fin 1000000))"

section \<open>The recording session: class DataRecorder\<close>

text \<open>
  A file object opened for writing: its path, whether it has been closed, the CSV rows
  written to it that are still in its buffer, and the rows that reached the operating
  system. \<open>csv.writer(f)\<close> wraps the file held in \<open>_file\<close>; the two attributes are
  always assigned together, so the writer is modelled by its presence alone.
\<close>

record csv_file =
  f_path :: string
  f_closed :: bool
  f_pending :: "string list list"
  f_rows :: "string list list"

datatype csv_writer = Writer

record DataRecorder =
  buffer_size :: int
  rec_file :: "csv_file option"
  rec_writer :: "csv_writer option"
  rec_buffer :: "string list list"
  is_recording :: bool
  rec_filepath :: "string option"

text \<open>
  What the operating system answers during one call: whether \<open>open\<close> raises for a path,
  whether writing rows raises, and whether pushing buffered rows to the operating system
  raises.
\<close>

record io_env =
  file_open_error :: "string \<Rightarrow> py_error option"
  writerow_error :: "py_error option"
  flush_error :: "py_error option"

text \<open>
  The file object. Writing to a closed file raises ValueError; otherwise the rows go to
  the buffer, also when the write raises. \<open>flush\<close> raises ValueError on a closed file,
  does nothing when nothing is buffered, and otherwise pushes the buffer out or raises.
  \<open>close\<close> does nothing on a closed file; otherwise it flushes, and the file is closed
  whether or not that flush raised: a failed flush is raised again by \<open>close\<close>.
\<close>

definition file_writerows :: "io_env \<Rightarrow> string list list \<Rightarrow> csv_file \<Rightarrow> py_error option \<times> csv_file" where
  "file_writerows env rows f =
     (if f_closed f then (Some ValueError, f)
      else (writerow_error env, f\<lparr>f_pending := f_pending f @ rows\<rparr>))"

definition file_flush :: "io_env \<Rightarrow> csv_file \<Rightarrow> py_error option \<times> csv_file" where
  "file_flush env f =
     (if f_closed f then (Some ValueError, f)
      else if f_pending f = [] then (None, f)
      else (case flush_error env of
              Some e \<Rightarrow> (Some e, f)
            | None \<Rightarrow> (None, f\<lparr>f_rows := f_rows f @ f_pending f, f_pending := []\<rparr>)))"

definition file_close :: "io_env \<Rightarrow> csv_file \<Rightarrow> py_error option \<times> csv_file" where
  "file_close env f =
     (if f_closed f then (None, f)
      else (case file_flush env f of (r, f') \<Rightarrow> (r, f'\<lparr>f_closed := True\<rparr>)))"

definition DataRecorder_init :: "int \<Rightarrow> DataRecorder" where
  "DataRecorder_init n =
     \<lparr>buffer_size = n, rec_file = None, rec_writer = None, rec_buffer = [],
      is_recording = False, rec_filepath = None\<rparr>"

function str_nat :: "nat \<Rightarrow> string" where
  "str_nat n =
     (if n < 10 then [''0123456789'' ! n]
      else str_nat (n div 10) @ [''0123456789'' ! (n mod 10)])"
  by pat_completeness auto
termination
  by (relation "measure id") auto

declare str_nat.simps [simp del]

text \<open>The header row: two time columns, then four columns for each controller
  \<open>i\<close> in \<open>range(num_controllers)\<close>, numbered from 1.\<close>

definition controller_columns :: "nat \<Rightarrow> string list" where
  "controller_columns i =
     [''Controller'' @ str_nat (i + 1) @ ''_Flow_SCCM'',
      ''Controller'' @ str_nat (i + 1) @ ''_Pressure_psi'',
      ''Controller'' @ str_nat (i + 1) @ ''_Temperature_C'',
      ''Controller'' @ str_nat (i + 1) @ ''_Setpoint_SCCM'']"

definition csv_header :: "int \<Rightarrow> string list" where
  "csv_header num_controllers =
     [''Timestamp'', ''DateTime''] @ concat (map controller_columns [0..<nat num_controllers])"

text \<open>
  The handler of \<open>start_recording\<close>: \<open>if self._file: self._file.close()\<close>, then
  \<open>return False\<close>. An exception of that \<open>close\<close> leaves the method.
\<close>

definition start_failed :: "io_env \<Rightarrow> DataRecorder \<Rightarrow> (py_error + bool) \<times> DataRecorder" where
  "start_failed env r =
     (case rec_file r of
        None \<Rightarrow> (Inr False, r)
      | Some f \<Rightarrow>
          (case file_close env f of
             (Some e, f') \<Rightarrow> (Inl e, r\<lparr>rec_file := Some f'\<rparr>)
           | (None, f') \<Rightarrow> (Inr False, r\<lparr>rec_file := Some f'\<rparr>)))"

text \<open>
  \<open>start_recording\<close>: the whole body is in \<open>try\<close>, and \<open>except Exception\<close> runs the
  handler above. There is no test of \<open>_is_recording\<close>. The recorder returned beside the
  result is the state the call leaves behind, also when it raises.
\<close>

definition start_recording :: "io_env \<Rightarrow> string \<Rightarrow> int \<Rightarrow> DataRecorder \<Rightarrow> (py_error + bool) \<times> DataRecorder" where
  "start_recording env filepath num_controllers r =
     (let r1 = r\<lparr>rec_filepath := Some filepath\<rparr>
      in case file_open_error env filepath of
           Some e \<Rightarrow> start_failed env r1
         | None \<Rightarrow>
             let f0 = \<lparr>f_path = filepath, f_closed = False, f_pending = [], f_rows = []\<rparr>;
                 r2 = r1\<lparr>rec_file := Some f0, rec_writer := Some Writer\<rparr>
             in case file_writerows env [csv_header num_controllers] f0 of
                  (Some e, f1) \<Rightarrow> start_failed env (r2\<lparr>rec_file := Some f1\<rparr>)
                | (None, f1) \<Rightarrow>
                    (case file_flush env f1 of
                       (Some e, f2) \<Rightarrow> start_failed env (r2\<lparr>rec_file := Some f2\<rparr>)
                     | (None, f2) \<Rightarrow>
                         (Inr True,
                          r2\<lparr>rec_file := Some f2, is_recording := True, rec_buffer := []\<rparr>)))"

text \<open>\<open>_flush_buffer\<close>: write the buffered rows, flush, clear the buffer; every exception
  on the way is swallowed, and what was done before it stays.\<close>

definition flush_buffer :: "io_env \<Rightarrow> DataRecorder \<Rightarrow> DataRecorder" where
  "flush_buffer env r =
     (case (rec_writer r, rec_file r) of
        (Some w, Some f) \<Rightarrow>
          if rec_buffer r = [] then r
          else
            (case file_writerows env (rec_buffer r) f of
               (Some e, f1) \<Rightarrow> r\<lparr>rec_file := Some f1\<rparr>
             | (None, f1) \<Rightarrow>
                 (case file_flush env f1 of
                    (Some e, f2) \<Rightarrow> r\<lparr>rec_file := Some f2\<rparr>
                  | (None, f2) \<Rightarrow> r\<lparr>rec_file := Some f2, rec_buffer := []\<rparr>))
      | _ \<Rightarrow> r)"

text \<open>
  \<open>record_data\<close>, with the row it formats from the samples taken as given: nothing
  happens unless recording with a writer; the row is buffered, and a full buffer is
  flushed. Every exception is swallowed.
\<close>

definition record_data :: "io_env \<Rightarrow> string list \<Rightarrow> DataRecorder \<Rightarrow> DataRecorder" where
  "record_data env row r =
     (if \<not> is_recording r \<or> rec_writer r = None then r
      else
        let r1 = r\<lparr>rec_buffer := rec_buffer r @ [row]\<rparr>
        in if buffer_size r1 \<le> int (length (rec_buffer r1)) then flush_buffer env r1 else r1)"

text \<open>
  \<open>stop_recording\<close>: the flag is cleared, what is buffered is flushed, the file is closed
  and then dropped with the writer. The \<open>close\<close> is not inside a \<open>try\<close>: when it raises,
  the method ends there and the closed file stays in \<open>_file\<close>.
\<close>

definition stop_recording :: "io_env \<Rightarrow> DataRecorder \<Rightarrow> py_error option \<times> DataRecorder" where
  "stop_recording env r =
     (let r1 = r\<lparr>is_recording := False\<rparr>;
          r2 = (if rec_buffer r1 \<noteq> [] then flush_buffer env r1 else r1)
      in case rec_file r2 of
           None \<Rightarrow> (None, r2)
         | Some f \<Rightarrow>
             (case file_close env f of
                (Some e, f') \<Rightarrow> (Some e, r2\<lparr>rec_file := Some f'\<rparr>)
              | (None, f') \<Rightarrow> (None, r2\<lparr>rec_file := None, rec_writer := None\<rparr>)))"

text \<open>What can happen to a recorder after its construction, in any order.\<close>

datatype recorder_op =
    Start io_env string int
  | Record io_env "string list"
  | Stop io_env

fun recorder_step :: "DataRecorder \<Rightarrow> recorder_op \<Rightarrow> DataRecorder" where
  "recorder_step r (Start env filepath n) = snd (start_recording env filepath n r)"
| "recorder_step r (Record env row) = record_data env row r"
| "recorder_step r (Stop env) = snd (stop_recording env r)"

definition run_recorder :: "DataRecorder \<Rightarrow> recorder_op list \<Rightarrow> DataRecorder" where
  "run_recorder r ops = foldl recorder_step r ops"

text \<open>No open file is held: there is no file object, or it is closed.\<close>

definition no_open_file :: "DataRecorder \<Rightarrow> bool" where
  "no_open_file r = (case rec_file r of None \<Rightarrow> True | Some f \<Rightarrow> f_closed f)"

definition io_ok :: io_env where
  "io_ok = \<lparr>file_open_error = (\<lambda>p. None), writerow_error = None, flush_error = None\<rparr>"

definition io_no_open :: io_env where
  "io_no_open =
     \<lparr>file_open_error = (\<lambda>p. Some ExternalError), writerow_error = None, flush_error = None\<rparr>"

text \<open>A full disk: files open, but no buffered row can be pushed out.\<close>

definition io_disk_full :: io_env where
  "io_disk_full =
     \<lparr>file_open_error = (\<lambda>p. None), writerow_error = None, flush_error = Some ExternalError\<rparr>"

text \<open>A full disk on which, besides, no file can be opened.\<close>

definition io_all_fail :: io_env where
  "io_all_fail =
     \<lparr>file_open_error = (\<lambda>p. Some ExternalError), writerow_error = None,
      flush_error = Some ExternalError\<rparr>"

section \<open>The session controller: class EtherCATManager\<close>

datatype ConnectionState = DISCONNECTED | CONNECTING | CONNECTED | ERROR

text \<open>A \<open>threading.Thread\<close> object: created, running, or ended.\<close>

datatype thread_state = Unstarted | Alive | Finished

text \<open>The master object of the fieldbus stack, as far as the manager uses it: whether the
  adapter is open, the requested state, and the slave list.\<close>

record pysoem_master =
  m_open :: bool
  m_state :: int
  m_slaves :: "pysoem_slave list"

text \<open>The EtherCAT state codes of the stack (\<open>pysoem.INIT_STATE\<close> and so on).\<close>

definition NONE_STATE :: int where
  "NONE_STATE = 0"

definition INIT_STATE :: int where
  "INIT_STATE = 1"

definition SAFEOP_STATE :: int where
  "SAFEOP_STATE = 4"

definition OP_STATE :: int where
  "OP_STATE = 8"


text \<open>
  What the bus and the operating system answer to the calls of \<open>connect\<close> and
  \<open>disconnect\<close>: for each call whether it raises, what \<open>config_init\<close> and the two
  \<open>state_check\<close> calls return, the slaves found, what \<open>config_map\<close> does to the buffers
  of a slave, and whether the cyclic thread ends within the timeout of \<open>join\<close>.
\<close>

record bus_env =
  master_new_error :: "py_error option"
  bus_open_error :: "py_error option"
  config_init_result :: "py_error + int"
  discovered_slaves :: "pysoem_slave list"
  config_map_error :: "py_error option"
  mapped :: "pysoem_slave \<Rightarrow> pysoem_slave"
  config_dc_error :: "py_error option"
  safeop_check :: "py_error + int"
  thread_start_error :: "py_error option"
  write_state_error :: "py_error option"
  op_check :: "py_error + int"
  close_error :: "py_error option"
  join_stops_thread :: bool

text \<open>The status string returned by \<open>connect\<close>, by its format and its arguments.\<close>

datatype connect_message =
    Connected int
  | ConnectedInState int
  | NotEnoughSlaves int int
  | ConnectFailed py_error

record EtherCATManager =
  adapter :: string
  master :: "pysoem_master option"
  drivers :: "BrooksDriver list"
  cyclic_thread :: "thread_state option"
  stop_event :: bool
  conn_state :: ConnectionState

definition EtherCATManager_init :: "string \<Rightarrow> EtherCATManager" where
  "EtherCATManager_init a =
     \<lparr>adapter = a, master = None, drivers = [], cyclic_thread = None, stop_event = False,
      conn_state = DISCONNECTED\<rparr>"

definition master_close :: "bus_env \<Rightarrow> pysoem_master \<Rightarrow> py_error option \<times> pysoem_master" where
  "master_close env ms =
     (case close_error env of
        Some e \<Rightarrow> (Some e, ms)
      | None \<Rightarrow> (None, ms\<lparr>m_open := False\<rparr>))"

text \<open>The handler of \<open>connect\<close>: state Error, the master closed if there is one (an
  exception of that \<open>close\<close> is dropped), and the failure returned.\<close>

definition connect_failed :: "bus_env \<Rightarrow> py_error \<Rightarrow> EtherCATManager \<Rightarrow> (bool \<times> connect_message) \<times> EtherCATManager" where
  "connect_failed env e m =
     ((False, ConnectFailed e),
      m\<lparr>conn_state := ERROR, master := map_option (\<lambda>ms. snd (master_close env ms)) (master m)\<rparr>)"

text \<open>The loop that builds the drivers: \<open>self.master.slaves[i]\<close> raises IndexError beyond
  the list, and the drivers appended so far stay.\<close>

fun append_drivers :: "pysoem_slave list \<Rightarrow> nat list \<Rightarrow> BrooksDriver list \<Rightarrow> py_error option \<times> BrooksDriver list" where
  "append_drivers slaves [] acc = (None, acc)"
| "append_drivers slaves (i # rest) acc =
     (if i < length slaves
      then append_drivers slaves rest (acc @ [BrooksDriver_init (Some (slaves ! i)) (int i)])
      else (Some IndexError, acc))"

text \<open>
  \<open>connect\<close>: every step from \<open>pysoem.Master()\<close> to the last \<open>state_check\<close> is inside
  \<open>try\<close>. The drivers hold the slave objects of the master, so \<open>config_map\<close> changes the
  buffers the drivers see. The cyclic thread started on the way runs beside this call; what
  it does is not part of this function.
\<close>

definition connect :: "bus_env \<Rightarrow> int \<Rightarrow> EtherCATManager \<Rightarrow> (bool \<times> connect_message) \<times> EtherCATManager" where
  "connect env num_controllers m0 =
     (let m1 = m0\<lparr>conn_state := CONNECTING\<rparr>
      in case master_new_error env of Some e \<Rightarrow> connect_failed env e m1 | None \<Rightarrow>
      let ms1 = \<lparr>m_open = False, m_state = NONE_STATE, m_slaves = []\<rparr>;
          m2 = m1\<lparr>master := Some ms1\<rparr>
      in case bus_open_error env of Some e \<Rightarrow> connect_failed env e m2 | None \<Rightarrow>
      let ms2 = ms1\<lparr>m_open := True\<rparr>;
          m3 = m2\<lparr>master := Some ms2\<rparr>
      in case config_init_result env of Inl e \<Rightarrow> connect_failed env e m3 | Inr slave_count \<Rightarrow>
      let ms3 = ms2\<lparr>m_slaves := discovered_slaves env\<rparr>;
          m4 = m3\<lparr>master := Some ms3\<rparr>
      in if slave_count < num_controllers then
           (case master_close env ms3 of
              (Some e, ms') \<Rightarrow> connect_failed env e (m4\<lparr>master := Some ms'\<rparr>)
            | (None, ms') \<Rightarrow>
                ((False, NotEnoughSlaves slave_count num_controllers),
                 m4\<lparr>master := Some ms', conn_state := ERROR\<rparr>))
         else
           (case append_drivers (m_slaves ms3) [0..<nat num_controllers] [] of
              (Some e, ds) \<Rightarrow> connect_failed env e (m4\<lparr>drivers := ds\<rparr>)
            | (None, ds) \<Rightarrow>
      let m5 = m4\<lparr>drivers := ds\<rparr>
      in case config_map_error env of Some e \<Rightarrow> connect_failed env e m5 | None \<Rightarrow>
      let ms4 = ms3\<lparr>m_slaves := map (mapped env) (m_slaves ms3)\<rparr>;
          m6 = m5\<lparr>master := Some ms4,
                  drivers := map (\<lambda>d. d\<lparr>slave := map_option (mapped env) (slave d)\<rparr>) ds\<rparr>
      in case config_dc_error env of Some e \<Rightarrow> connect_failed env e m6 | None \<Rightarrow>
         case safeop_check env of Inl e \<Rightarrow> connect_failed env e m6 | Inr reached \<Rightarrow>
      let m7 = m6\<lparr>stop_event := False, cyclic_thread := Some Unstarted\<rparr>
      in case thread_start_error env of Some e \<Rightarrow> connect_failed env e m7 | None \<Rightarrow>
      let ms5 = ms4\<lparr>m_state := OP_STATE\<rparr>;
          m8 = m7\<lparr>cyclic_thread := Some Alive, master := Some ms5\<rparr>
      in case write_state_error env of Some e \<Rightarrow> connect_failed env e m8 | None \<Rightarrow>
         case op_check env of Inl e \<Rightarrow> connect_failed env e m8 | Inr actual_state \<Rightarrow>
           if actual_state = OP_STATE
           then ((True, Connected num_controllers), m8\<lparr>conn_state := CONNECTED\<rparr>)
           else ((True, ConnectedInState actual_state), m8\<lparr>conn_state := CONNECTED\<rparr>)))"

text \<open>The zero-setpoint loop of \<open>disconnect\<close>: an exception of one write ends it.\<close>

fun write_zero_all :: "BrooksDriver list \<Rightarrow> py_error option \<times> BrooksDriver list" where
  "write_zero_all [] = (None, [])"
| "write_zero_all (d # ds) =
     (case write_setpoint (Fin 0) d of
        (Inl e, d') \<Rightarrow> (Some e, d' # ds)
      | (Inr ok, d') \<Rightarrow> (case write_zero_all ds of (r, ds') \<Rightarrow> (r, d' # ds')))"

text \<open>The body of the \<open>try\<close> in \<open>disconnect\<close>: zero setpoints, the request of the Init
  state, the close. It returns the exception that ended it, if one did.\<close>

definition teardown :: "bus_env \<Rightarrow> pysoem_master \<Rightarrow> EtherCATManager \<Rightarrow> py_error option \<times> EtherCATManager" where
  "teardown env ms m =
     (case write_zero_all (drivers m) of
        (Some e, ds) \<Rightarrow> (Some e, m\<lparr>drivers := ds\<rparr>)
      | (None, ds) \<Rightarrow>
          let ms1 = ms\<lparr>m_state := INIT_STATE\<rparr>;
              m1 = m\<lparr>drivers := ds, master := Some ms1\<rparr>
          in case write_state_error env of
               Some e \<Rightarrow> (Some e, m1)
             | None \<Rightarrow> (case master_close env ms1 of (r, ms2) \<Rightarrow> (r, m1\<lparr>master := Some ms2\<rparr>)))"

text \<open>
  \<open>disconnect\<close>: the stop flag, the bounded \<open>join\<close> of a live thread, the teardown under
  \<open>except Exception\<close> (the exception is printed and dropped), then the three assignments
  that end every path.
\<close>

definition disconnect :: "bus_env \<Rightarrow> EtherCATManager \<Rightarrow> EtherCATManager" where
  "disconnect env m =
     (let m1 = m\<lparr>stop_event := True\<rparr>;
          m2 = (if cyclic_thread m1 = Some Alive
                then m1\<lparr>cyclic_thread := Some (if join_stops_thread env then Finished else Alive)\<rparr>
                else m1);
          m3 = (case master m2 of None \<Rightarrow> m2 | Some ms \<Rightarrow> snd (teardown env ms m2))
      in m3\<lparr>drivers := [], master := None, conn_state := DISCONNECTED\<rparr>)"

text \<open>Two answers of the bus used in the examples: everything succeeds but the final
  check reports Safe-Operational; and a bus whose teardown calls all raise.\<close>

definition bus_degraded :: bus_env where
  "bus_degraded =
     \<lparr>master_new_error = None, bus_open_error = None, config_init_result = Inr 2,
      discovered_slaves = [unmapped_slave, unmapped_slave], config_map_error = None,
      mapped = (\<lambda>s. s\<lparr>slave_input := Some zero_frame, slave_output := Some zero_frame\<rparr>),
      config_dc_error = None, safeop_check = Inr SAFEOP_STATE, thread_start_error = None,
      write_state_error = None, op_check = Inr SAFEOP_STATE, close_error = None,
      join_stops_thread = True\<rparr>"

definition bus_broken :: bus_env where
  "bus_broken =
     bus_degraded\<lparr>write_state_error := Some ExternalError, close_error := Some ExternalError,
                  join_stops_thread := False\<rparr>"

section \<open>The telemetry store: class DataManager\<close>

definition MAX_HISTORY_POINTS :: int where
  "MAX_HISTORY_POINTS = 200"

text \<open>
  \<open>deque(maxlen=n).append(x)\<close>: the item is appended on the right, then one item is
  dropped on the left if the deque is longer than \<open>maxlen\<close>.
\<close>

definition deque_append :: "int \<Rightarrow> 'a list \<Rightarrow> 'a \<Rightarrow> 'a list" where
  "deque_append maxlen dq x =
     (let dq' = dq @ [x] in if maxlen < int (length dq') then tl dq' else dq')"

text \<open>One entry of \<open>history\<close>: the five deques of a channel.\<close>

record channel_history =
  h_time :: "pyfloat list"
  h_flow :: "pyfloat list"
  h_pressure :: "pyfloat list"
  h_temperature :: "pyfloat list"
  h_setpoint :: "pyfloat list"

record DataManager =
  num_controllers :: int
  max_points :: int
  history :: "channel_history list"
  current_data :: "ControllerData option list"
  recorder :: DataRecorder

definition empty_history :: channel_history where
  "empty_history = \<lparr>h_time = [], h_flow = [], h_pressure = [], h_temperature = [], h_setpoint = []\<rparr>"

text \<open>
  \<open>__init__\<close>: \<open>deque(maxlen=max_points)\<close> raises ValueError for a negative \<open>max_points\<close>,
  which happens in the first round of the loop over \<open>range(num_controllers)\<close>, if there
  is one.
\<close>

definition DataManager_init :: "int \<Rightarrow> int \<Rightarrow> py_error + DataManager" where
  "DataManager_init n mp =
     (if 0 < n \<and> mp < 0 then Inl ValueError
      else Inr \<lparr>num_controllers = n, max_points = mp,
                history = replicate (nat n) empty_history,
                current_data = replicate (nat n) None,
                recorder = DataRecorder_init 100\<rparr>)"

definition history_append :: "int \<Rightarrow> channel_history \<Rightarrow> ControllerData \<Rightarrow> channel_history" where
  "history_append mp h d =
     \<lparr>h_time = deque_append mp (h_time h) (timestamp d),
      h_flow = deque_append mp (h_flow h) (flow d),
      h_pressure = deque_append mp (h_pressure h) (pressure d),
      h_temperature = deque_append mp (h_temperature h) (temperature d),
      h_setpoint = deque_append mp (h_setpoint h) (setpoint d)\<rparr>"

text \<open>
  The loop of \<open>update_data\<close> over \<open>enumerate(controllers_data)\<close>, from index \<open>i\<close> on. An
  index beyond a list raises IndexError: at \<open>self.current_data[i] = data\<close> before
  anything is stored, at \<open>self.history[i]\<close> after the current sample was stored. The
  manager returned beside the error is the state the loop leaves behind.
\<close>

fun update_from :: "nat \<Rightarrow> DataManager \<Rightarrow> ControllerData option list \<Rightarrow> py_error option \<times> DataManager" where
  "update_from i dm [] = (None, dm)"
| "update_from i dm (None # rest) = update_from (Suc i) dm rest"
| "update_from i dm (Some d # rest) =
     (if int i < num_controllers dm then
        (if length (current_data dm) \<le> i then (Some IndexError, dm)
         else
           let dm1 = dm\<lparr>current_data := (current_data dm)[i := Some d]\<rparr>
           in if length (history dm1) \<le> i then (Some IndexError, dm1)
              else update_from (Suc i)
                     (dm1\<lparr>history := (history dm1)[i := history_append (max_points dm1) (history dm1 ! i) d]\<rparr>)
                     rest)
      else update_from (Suc i) dm rest)"

definition update_data :: "ControllerData option list \<Rightarrow> DataManager \<Rightarrow> py_error option \<times> DataManager" where
  "update_data controllers_data dm = update_from 0 dm controllers_data"

text \<open>\<open>get_history\<close> returns copies of the five deques as lists, or None for an index out
  of range.\<close>

definition get_history :: "int \<Rightarrow> DataManager \<Rightarrow> channel_history option" where
  "get_history i dm =
     (if 0 \<le> i \<and> i < num_controllers dm then Some (history dm ! nat i) else None)"

text \<open>A run of the scheduler: one \<open>update_data\<close> per batch; the first error stops it.\<close>

fun run_updates :: "DataManager \<Rightarrow> ControllerData option list list \<Rightarrow> py_error option \<times> DataManager" where
  "run_updates dm [] = (None, dm)"
| "run_updates dm (b # bs) =
     (case update_data b dm of
        (None, dm') \<Rightarrow> run_updates dm' bs
      | (Some e, dm') \<Rightarrow> (Some e, dm'))"

text \<open>The samples a sequence of batches holds for channel \<open>i\<close>, in temporal order, and
  the last \<open>n\<close> items of a list.\<close>

definition channel_samples :: "nat \<Rightarrow> ControllerData option list list \<Rightarrow> ControllerData list" where
  "channel_samples i batches =
     concat (map (\<lambda>b. if i < length b then (case b ! i of None \<Rightarrow> [] | Some d \<Rightarrow> [d]) else []) batches)"

definition last_n :: "nat \<Rightarrow> 'a list \<Rightarrow> 'a list" where
  "last_n n xs = drop (length xs - n) xs"

definition sample_at :: "real \<Rightarrow> ControllerData" where
  "sample_at t =
     \<lparr>timestamp = Fin t, flow = Fin (10 * t), pressure = Fin 1, temperature = Fin 20,
      setpoint = Fin 0\<rparr>"

text \<open>What a channel's history should hold after the samples \<open>xs\<close> were appended in
  this order, for capacity \<open>mp\<close>: the last \<open>mp\<close> of them, column by column.\<close>

definition expected_history :: "int \<Rightarrow> ControllerData list \<Rightarrow> channel_history" where
  "expected_history mp xs =
     \<lparr>h_time = map timestamp (last_n (nat mp) xs),
      h_flow = map flow (last_n (nat mp) xs),
      h_pressure = map pressure (last_n (nat mp) xs),
      h_temperature = map temperature (last_n (nat mp) xs),
      h_setpoint = map setpoint (last_n (nat mp) xs)\<rparr>"

text \<open>The state of a manager built by \<open>DataManager(n, mp)\<close>: the shape that
  \<open>update_data\<close> keeps.\<close>

definition dm_shape :: "int \<Rightarrow> int \<Rightarrow> DataManager \<Rightarrow> bool" where
  "dm_shape n mp dm =
     (num_controllers dm = n \<and> max_points dm = mp \<and> 0 \<le> mp
      \<and> length (history dm) = nat n \<and> length (current_data dm) = nat n)"

text \<open>What one round of the loop does to the history of channel \<open>i\<close>, when the loop
  handles the batch \<open>b\<close> from index \<open>j\<close> on: the sample of slot \<open>i - j\<close> is appended.\<close>

definition slot_append :: "int \<Rightarrow> ControllerData option list \<Rightarrow> nat \<Rightarrow> nat \<Rightarrow> channel_history \<Rightarrow> channel_history" where
  "slot_append mp b j i h =
     (if j \<le> i \<and> i < j + length b
      then (case b ! (i - j) of None \<Rightarrow> h | Some d \<Rightarrow> history_append mp h d)
      else h)"

definition three_batches :: "ControllerData option list list" where
  "three_batches =
     [[Some (sample_at 1), None],
      [Some (sample_at 2), Some (sample_at 5)],
      [Some (sample_at 3)]]"

text \<open>A bus on which everything succeeds, but assigning to a mapped output buffer raises.\<close>

definition bus_output_fault :: bus_env where
  "bus_output_fault =
     bus_degraded\<lparr>mapped := (\<lambda>s. s\<lparr>slave_input := Some zero_frame, slave_output := Some zero_frame,
                                     output_write_error := Some ExternalError\<rparr>)\<rparr>"

definition connected_manager :: "bus_env \<Rightarrow> EtherCATManager" where
  "connected_manager env = snd (connect env 2 (EtherCATManager_init ''eth0''))"

section \<open>Evaluation rules and facts about the float model\<close>

lemmas float_eval = float_truediv_def float_mul_def round_double_def round_me_def floor_log2_def
  rne_def pow2_def signed_zero_def signed_inf_def blen.simps Let_def

lemmas struct_eval = struct_unpack_f_def le_u32_def float32_of_bits_def struct_pack_fBfI_def
  struct_pack_f_def float32_bits_def le_bytes4_def bind_r_def py_slice_def

lemma blen_le: "n < 2 ^ k \<Longrightarrow> blen n \<le> k"
proof (induction k arbitrary: n)
  case 0
  then show ?case by (simp add: blen.simps)
next
  case (Suc k)
  have "n div 2 < 2 ^ k" using Suc.prems by auto
  then have "blen (n div 2) \<le> k" by (rule Suc.IH)
  then show ?case by (subst blen.simps) simp
qed

lemma floor_log2_less:
  assumes "a < 2 ^ k" and "0 < k"
  shows "floor_log2 a < int k"
proof (cases "1 \<le> a")
  case True
  have "real_of_int \<lfloor>a\<rfloor> \<le> a" by simp
  then have "real_of_int \<lfloor>a\<rfloor> < 2 ^ k" using assms by linarith
  then have "\<lfloor>a\<rfloor> < 2 ^ k" by (metis of_int_less_iff of_int_numeral of_int_power)
  then have "nat \<lfloor>a\<rfloor> < 2 ^ k" using True by (simp add: nat_less_iff)
  then have "blen (nat \<lfloor>a\<rfloor>) \<le> k" by (rule blen_le)
  then show ?thesis using True by (simp add: floor_log2_def)
next
  case False
  then show ?thesis using assms by (simp add: floor_log2_def)
qed

lemma float32_bits_ok:
  assumes "0 \<le> r" and "r \<le> 1000000"
  shows "\<exists>n. float32_bits (Fin r) = Inr n"
proof (cases "r = 0")
  case True
  then show ?thesis by (simp add: float32_bits_def)
next
  case False
  obtain m e where me: "round_me 24 (- 149) \<bar>r\<bar> = (m, e)" by (cases "round_me 24 (- 149) \<bar>r\<bar>")
  have "\<bar>r\<bar> < 2 ^ 20" using assms by simp
  then have "floor_log2 \<bar>r\<bar> < int 20" by (rule floor_log2_less) simp
  moreover have "e = max (floor_log2 \<bar>r\<bar> - (int 24 - 1)) (- 149)"
    using me by (simp add: round_me_def Let_def)
  ultimately have e: "e \<le> - 4" by simp
  show ?thesis
  proof (cases "m < 8388608")
    case True
    then show ?thesis using False me by (simp add: float32_bits_def)
  next
    case m: False
    show ?thesis
    proof (cases "m = 16777216")
      case True
      then show ?thesis using False me e by (simp add: float32_bits_def)
    next
      case False
      then show ?thesis using \<open>r \<noteq> 0\<close> m me e by (simp add: float32_bits_def)
    qed
  qed
qed

lemma struct_pack_ok:
  assumes "0 \<le> r" and "r \<le> 1000000"
  shows "\<exists>bs. struct_pack_fBfI (Fin r) 0 (Fin 0) 0 = Inr bs"
proof -
  obtain n where "float32_bits (Fin r) = Inr n" using float32_bits_ok [OF assms] by blast
  then show ?thesis
    by (simp add: struct_pack_fBfI_def struct_pack_f_def bind_r_def float32_bits_def)
qed

lemma float_range_cases:
  assumes "float_le (Fin lo) x" and "float_le x (Fin hi)"
  shows "\<exists>r. (x = Fin r \<or> (x = NegZero \<and> r = 0)) \<and> lo \<le> r \<and> r \<le> hi"
  using assms by (cases x) (auto simp: float_le_def)

lemma clamp_in_range:
  assumes "float_le (Fin 0) fs"
  shows "float_le (Fin 0) (py_max (Fin 0) (py_min x fs))
       \<and> float_le (py_max (Fin 0) (py_min x fs)) fs"
  using assms
  by (cases x; cases fs) (auto simp: py_max_def py_min_def float_lt_def float_le_def)

lemma init_fields:
  "slave (BrooksDriver_init s cid) = s"
  "controller_id (BrooksDriver_init s cid) = cid"
  "stored_setpoint (BrooksDriver_init s cid) = Fin 0"
  by (auto simp: BrooksDriver_init_def read_full_scale_def split: option.splits sum.splits)

lemma init_scale_ok: "scale_ok (BrooksDriver_init s cid)"
  by (auto simp: scale_ok_def BrooksDriver_init_def read_full_scale_def float_le_def
      split: option.splits sum.splits)

lemma write_setpoint_full_scale: "full_scale (snd (write_setpoint x d)) = full_scale d"
  by (auto simp: write_setpoint_def Let_def split: option.splits sum.splits)

lemma driver_step_full_scale: "full_scale (driver_step d ev) = full_scale d"
  by (cases ev) (simp_all add: write_setpoint_full_scale)

lemma run_events_full_scale: "full_scale (run_events d evs) = full_scale d"
  unfolding run_events_def
  by (induction evs arbitrary: d) (simp_all add: driver_step_full_scale)

lemma run_events_scale_ok: "scale_ok (run_events (BrooksDriver_init s cid) evs)"
  using init_scale_ok [of s cid] by (simp add: scale_ok_def run_events_full_scale)

lemma write_setpoint_stored:
  "stored_setpoint (snd (write_setpoint x d)) = stored_setpoint d
   \<or> stored_setpoint (snd (write_setpoint x d)) = py_max (Fin 0) (py_min x (full_scale d))"
  by (auto simp: write_setpoint_def Let_def split: option.splits sum.splits)

lemma write_setpoint_in_range:
  assumes "scale_ok d" and "setpoint_in_range d"
  shows "setpoint_in_range (snd (write_setpoint x d))"
proof -
  have "float_le (Fin 0) (full_scale d)"
    using assms(1) by (cases "full_scale d") (auto simp: scale_ok_def float_le_def)
  then have c: "float_le (Fin 0) (py_max (Fin 0) (py_min x (full_scale d)))
       \<and> float_le (py_max (Fin 0) (py_min x (full_scale d))) (full_scale d)"
    by (rule clamp_in_range)
  show ?thesis
    using write_setpoint_stored [of x d] c assms(2)
    by (auto simp: setpoint_in_range_def get_setpoint_def write_setpoint_full_scale)
qed

lemma driver_step_in_range:
  assumes "scale_ok d" and "setpoint_in_range d"
  shows "setpoint_in_range (driver_step d ev)"
proof (cases ev)
  case (Write x)
  then show ?thesis using write_setpoint_in_range [OF assms] by simp
next
  case (BusUpdate i out)
  then show ?thesis using assms(2) by (simp add: setpoint_in_range_def get_setpoint_def)
qed

lemma run_events_in_range:
  assumes "scale_ok d" and "setpoint_in_range d"
  shows "setpoint_in_range (run_events d evs)"
  using assms unfolding run_events_def
proof (induction evs arbitrary: d)
  case Nil
  then show ?case by simp
next
  case (Cons ev evs)
  have "scale_ok (driver_step d ev)"
    using Cons.prems(1) by (simp add: scale_ok_def driver_step_full_scale)
  moreover have "setpoint_in_range (driver_step d ev)"
    using Cons.prems by (rule driver_step_in_range)
  ultimately show ?case using Cons.IH by simp
qed

lemma init_in_range: "setpoint_in_range (BrooksDriver_init s cid)"
  using init_scale_ok [of s cid]
  by (cases "full_scale (BrooksDriver_init s cid)")
     (auto simp: setpoint_in_range_def get_setpoint_def init_fields scale_ok_def float_le_def)

lemma init_mapped:
  "BrooksDriver_init (Some (mapped_slave fr)) cid =
     \<lparr>slave = Some (mapped_slave fr), controller_id = cid, full_scale = Fin 30000,
      stored_setpoint = Fin 0\<rparr>"
  by (simp add: BrooksDriver_init_def read_full_scale_def mapped_slave_def no_sdo_def)

lemma slice4:
  assumes "k + 4 \<le> length xs"
  shows "py_slice k (k + 4) xs = [xs ! k, xs ! (k + 1), xs ! (k + 2), xs ! (k + 3)]"
proof -
  have "length (py_slice k (k + 4) xs) = 4" using assms by (simp add: py_slice_def)
  moreover have "py_slice k (k + 4) xs ! i = xs ! (k + i)" if "i < 4" for i
    using that assms by (simp add: py_slice_def)
  ultimately show ?thesis
    by (auto simp: list_eq_iff_nth_eq less_Suc_eq numeral_eq_Suc add.commute)
qed

lemma truediv_100: "\<exists>q. float_truediv a (Fin 100) = Inr q"
  by (simp add: float_truediv_def)

lemma unpack_5000: "struct_unpack_f [0, 64, 156, 69] = Inr (Fin 5000)"
  by (simp add: struct_eval pow2_def)

lemma unpack_14_5: "struct_unpack_f [0, 0, 104, 65] = Inr (Fin (29 / 2))"
  by (simp add: struct_eval pow2_def)

lemma unpack_23_5: "struct_unpack_f [0, 0, 188, 65] = Inr (Fin (47 / 2))"
  by (simp add: struct_eval pow2_def)

lemma div_5000: "float_truediv (Fin 5000) (Fin 100) = Inr (Fin 50)"
  by (simp add: float_eval)

lemma flow_5000: "float_truediv (float_mul (Fin 50) (Fin 30000)) (Fin 100) = Inr (Fin 15000)"
  by (simp add: float_eval)

lemma init_full_scale:
  "full_scale (BrooksDriver_init s cid) =
     (case s of
        None \<Rightarrow> Fin 30000
      | Some sl \<Rightarrow>
          (case sdo_read sl SDO_FULL_SCALE_INDEX SDO_FULL_SCALE_SUBINDEX 4 of
             Inr (Some data) \<Rightarrow>
               if 4 \<le> length data then
                 (case struct_unpack_f (py_slice 0 4 data) of
                    Inr f \<Rightarrow> if float_le (Fin 1) f \<and> float_le f (Fin 1000000) then f else Fin 30000
                  | Inl e \<Rightarrow> Fin 30000)
               else Fin 30000
           | _ \<Rightarrow> Fin 30000))"
  by (auto simp: BrooksDriver_init_def read_full_scale_def split: option.splits sum.splits)

lemma unpack_30000: "struct_unpack_f [0, 96, 234, 70] = Inr (Fin 30000)"
  by (simp add: struct_eval pow2_def)

lemma unpack_0_5: "struct_unpack_f [0, 0, 0, 63] = Inr (Fin (1 / 2))"
  by (simp add: struct_eval pow2_def)

lemma reply_slave_sdo:
  "sdo_read (reply_slave bs) SDO_FULL_SCALE_INDEX SDO_FULL_SCALE_SUBINDEX 4 = Inr (Some bs)"
  by (simp add: reply_slave_def sdo_reply_def)

section \<open>Facts about the recording session\<close>

lemma file_close_closed: "f_closed (snd (file_close env f))"
  by (auto simp: file_close_def file_flush_def split: option.splits prod.splits)

lemma file_writerows_closed: "f_closed (snd (file_writerows env rows f)) = f_closed f"
  by (simp add: file_writerows_def)

lemma file_flush_closed: "f_closed (snd (file_flush env f)) = f_closed f"
  by (auto simp: file_flush_def split: option.splits)

lemma start_failed_no_open_file: "no_open_file (snd (start_failed env r))"
proof (cases "rec_file r")
  case None
  then show ?thesis by (simp add: start_failed_def no_open_file_def)
next
  case (Some f)
  obtain e f' where c: "file_close env f = (e, f')" by (cases "file_close env f")
  then have "f_closed f'" using file_close_closed [of env f] by simp
  then show ?thesis using Some c
    by (cases e) (simp_all add: start_failed_def no_open_file_def)
qed

lemma start_failed_flag: "is_recording (snd (start_failed env r)) = is_recording r"
  by (auto simp: start_failed_def split: option.splits prod.splits)

text \<open>After any call of \<open>start_recording\<close> the session is recording or holds no open
  file.\<close>

lemma start_recording_idle:
  "is_recording (snd (start_recording env fp n r)) \<or> no_open_file (snd (start_recording env fp n r))"
  by (auto simp: start_recording_def Let_def start_failed_no_open_file
      split: option.splits prod.splits)

lemma flush_buffer_frame:
  "is_recording (flush_buffer env r) = is_recording r"
  "no_open_file (flush_buffer env r) = no_open_file r"
proof -
  show "is_recording (flush_buffer env r) = is_recording r"
    by (auto simp: flush_buffer_def split: option.splits prod.splits)
  show "no_open_file (flush_buffer env r) = no_open_file r"
  proof (cases "rec_writer r")
    case None
    then show ?thesis by (simp add: flush_buffer_def)
  next
    case w: (Some w)
    show ?thesis
    proof (cases "rec_file r")
      case None
      then show ?thesis using w by (simp add: flush_buffer_def)
    next
      case (Some f)
      obtain e1 f1 where a: "file_writerows env (rec_buffer r) f = (e1, f1)"
        by (cases "file_writerows env (rec_buffer r) f")
      obtain e2 f2 where b: "file_flush env f1 = (e2, f2)" by (cases "file_flush env f1")
      have c1: "f_closed f1 = f_closed f" using file_writerows_closed [of env "rec_buffer r" f] a by simp
      have c2: "f_closed f2 = f_closed f1" using file_flush_closed [of env f1] b by simp
      show ?thesis using w Some a b c1 c2
        by (cases e1; cases e2) (simp_all add: flush_buffer_def no_open_file_def)
    qed
  qed
qed

lemma record_data_frame:
  "is_recording (record_data env row r) = is_recording r"
  "no_open_file (record_data env row r) = no_open_file r"
  by (simp_all add: record_data_def Let_def flush_buffer_frame)
     (simp add: no_open_file_def)

lemma stop_recording_idle: "no_open_file (snd (stop_recording env r))"
proof -
  let ?r2 = "if rec_buffer r \<noteq> [] then flush_buffer env (r\<lparr>is_recording := False\<rparr>)
             else r\<lparr>is_recording := False\<rparr>"
  show ?thesis
  proof (cases "rec_file ?r2")
    case None
    then show ?thesis by (simp add: stop_recording_def Let_def no_open_file_def)
  next
    case (Some f)
    obtain e f' where c: "file_close env f = (e, f')" by (cases "file_close env f")
    then have "f_closed f'" using file_close_closed [of env f] by simp
    then show ?thesis using Some c
      by (cases e) (simp_all add: stop_recording_def Let_def no_open_file_def)
  qed
qed

lemma recorder_step_idle:
  assumes "is_recording r \<or> no_open_file r"
  shows "is_recording (recorder_step r op) \<or> no_open_file (recorder_step r op)"
proof (cases op)
  case (Start env fp n)
  then show ?thesis using start_recording_idle [of env fp n r] by simp
next
  case (Record env row)
  then show ?thesis using assms by (simp add: record_data_frame)
next
  case (Stop env)
  then show ?thesis using stop_recording_idle [of env r] by simp
qed

lemma run_recorder_idle:
  assumes "is_recording r \<or> no_open_file r"
  shows "is_recording (run_recorder r ops) \<or> no_open_file (run_recorder r ops)"
  using assms unfolding run_recorder_def
proof (induction ops arbitrary: r)
  case Nil
  then show ?case by simp
next
  case (Cons op ops)
  have "is_recording (recorder_step r op) \<or> no_open_file (recorder_step r op)"
    using Cons.prems by (rule recorder_step_idle)
  then show ?case using Cons.IH by simp
qed

lemma init_idle: "no_open_file (DataRecorder_init b)"
  by (simp add: no_open_file_def DataRecorder_init_def)

lemma start_failed_idle:
  assumes "no_open_file r"
  shows "start_failed env r = (Inr False, r)"
  using assms
  by (auto simp: start_failed_def no_open_file_def file_close_def split: option.splits)

lemma started:
  "start_recording io_ok fp n r =
     (Inr True,
      r\<lparr>rec_file := Some \<lparr>f_path = fp, f_closed = False, f_pending = [], f_rows = [csv_header n]\<rparr>,
        rec_writer := Some Writer, rec_buffer := [], is_recording := True,
        rec_filepath := Some fp\<rparr>)"
  by (simp add: start_recording_def io_ok_def Let_def file_writerows_def file_flush_def)

lemma stopped:
  "run_recorder (DataRecorder_init 100) [Start io_ok ''a.csv'' 2, Stop io_ok] =
     \<lparr>buffer_size = 100, rec_file = None, rec_writer = None, rec_buffer = [],
      is_recording = False, rec_filepath = Some ''a.csv''\<rparr>"
  by (simp add: run_recorder_def started stop_recording_def Let_def file_close_def file_flush_def
      DataRecorder_init_def)

text \<open>
  The handler of \<open>start_recording\<close> can raise. When the flush of the header fails, the
  \<open>close\<close> in the handler fails in the same way and its exception leaves
  \<open>start_recording\<close>; and when \<open>open\<close> fails during a recording whose file holds rows
  that cannot be pushed out, the handler closes that file, raises, and leaves the
  recording flag set on a closed file.
\<close>

lemma start_recording_flush_failure_raises:
  assumes "file_open_error env fp = None" and "writerow_error env = None"
    and "flush_error env = Some e"
  shows "fst (start_recording env fp n r) = Inl e
       \<and> is_recording (snd (start_recording env fp n r)) = is_recording r"
  using assms
  by (simp add: start_recording_def Let_def file_writerows_def file_flush_def start_failed_def
      file_close_def)

lemma recording_with_pending_row:
  "run_recorder (DataRecorder_init 1) [Start io_ok ''a.csv'' 2, Record io_disk_full [''row'']] =
     \<lparr>buffer_size = 1,
      rec_file = Some \<lparr>f_path = ''a.csv'', f_closed = False, f_pending = [[''row'']],
                       f_rows = [csv_header 2]\<rparr>,
      rec_writer = Some Writer, rec_buffer = [[''row'']], is_recording = True,
      rec_filepath = Some ''a.csv''\<rparr>"
  unfolding run_recorder_def
  by (simp add: started)
     (simp add: record_data_def flush_buffer_def file_writerows_def file_flush_def
        io_disk_full_def DataRecorder_init_def Let_def)

lemma start_recording_while_recording_raises:
  "fst (start_recording io_all_fail ''b.csv'' 2
          (run_recorder (DataRecorder_init 1) [Start io_ok ''a.csv'' 2, Record io_disk_full [''row'']]))
     = Inl ExternalError
   \<and> is_recording (snd (start_recording io_all_fail ''b.csv'' 2
          (run_recorder (DataRecorder_init 1) [Start io_ok ''a.csv'' 2, Record io_disk_full [''row'']])))
   \<and> map_option f_closed (rec_file (snd (start_recording io_all_fail ''b.csv'' 2
          (run_recorder (DataRecorder_init 1) [Start io_ok ''a.csv'' 2, Record io_disk_full [''row'']]))))
     = Some True"
  unfolding recording_with_pending_row
  by (simp add: file_flush_def file_close_def start_recording_def start_failed_def
      io_all_fail_def Let_def)

lemma header_2:
  "csv_header 2 = [''Timestamp'', ''DateTime'',
     ''Controller1_Flow_SCCM'', ''Controller1_Pressure_psi'', ''Controller1_Temperature_C'',
     ''Controller1_Setpoint_SCCM'',
     ''Controller2_Flow_SCCM'', ''Controller2_Pressure_psi'', ''Controller2_Temperature_C'',
     ''Controller2_Setpoint_SCCM'']"
  by (simp add: csv_header_def controller_columns_def str_nat.simps upt_conv_Cons)

section \<open>Facts about the telemetry store\<close>

lemma tl_drop_snoc:
  assumes "k \<le> length xs"
  shows "tl (drop k xs @ [x]) = drop (Suc k) (xs @ [x])"
proof (cases "k < length xs")
  case True
  then have "drop k xs \<noteq> []" by simp
  then have "tl (drop k xs @ [x]) = tl (drop k xs) @ [x]" by simp
  also have "\<dots> = drop (Suc k) xs @ [x]" by (simp add: drop_Suc tl_drop)
  also have "\<dots> = drop (Suc k) (xs @ [x])" using True by simp
  finally show ?thesis .
next
  case False
  then have "k = length xs" using assms by simp
  then show ?thesis by simp
qed

lemma deque_append_last_n:
  assumes "0 \<le> mp"
  shows "deque_append mp (map f (last_n (nat mp) xs)) (f x) = map f (last_n (nat mp) (xs @ [x]))"
proof (cases "length xs < nat mp")
  case True
  then have "\<not> mp < int (length (map f xs @ [f x]))" by simp
  then show ?thesis using True by (simp add: deque_append_def last_n_def Let_def)
next
  case False
  then have le: "nat mp \<le> length xs" by simp
  have len: "length (last_n (nat mp) xs) = nat mp" using le by (simp add: last_n_def)
  have "deque_append mp (map f (last_n (nat mp) xs)) (f x)
      = tl (map f (last_n (nat mp) xs) @ [f x])"
    using assms len by (simp add: deque_append_def Let_def)
  also have "\<dots> = map f (tl (last_n (nat mp) xs @ [x]))" by (simp add: map_tl)
  also have "tl (last_n (nat mp) xs @ [x]) = drop (Suc (length xs - nat mp)) (xs @ [x])"
    unfolding last_n_def by (rule tl_drop_snoc) simp
  also have "Suc (length xs - nat mp) = length (xs @ [x]) - nat mp" using le by simp
  finally show ?thesis by (simp add: last_n_def)
qed

lemma history_append_expected:
  assumes "0 \<le> mp"
  shows "history_append mp (expected_history mp xs) d = expected_history mp (xs @ [d])"
  using assms by (simp add: history_append_def expected_history_def deque_append_last_n)

lemma expected_history_Nil: "expected_history mp [] = empty_history"
  by (simp add: expected_history_def empty_history_def last_n_def)

lemma length_last_n: "length (last_n n xs) \<le> n"
  by (simp add: last_n_def)

lemma update_from_shape:
  assumes "dm_shape n mp dm"
  shows "\<exists>dm'. update_from j dm b = (None, dm') \<and> dm_shape n mp dm'
           \<and> (\<forall>i < nat n. history dm' ! i = slot_append mp b j i (history dm ! i))"
  using assms
proof (induction b arbitrary: j dm)
  case Nil
  then show ?case by (simp add: slot_append_def)
next
  case (Cons a b)
  show ?case
  proof (cases a)
    case None
    from Cons.IH [OF Cons.prems, of "Suc j"]
    obtain dm' where r: "update_from (Suc j) dm b = (None, dm')" "dm_shape n mp dm'"
      "\<forall>i < nat n. history dm' ! i = slot_append mp b (Suc j) i (history dm ! i)" by blast
    have "slot_append mp (a # b) j i h = slot_append mp b (Suc j) i h" for i h
      using None by (auto simp: slot_append_def nth_Cons' Suc_diff_Suc split: option.splits)
    then show ?thesis using r None by simp
  next
    case (Some d)
    show ?thesis
    proof (cases "int j < n")
      case True
      then have jn: "j < nat n" by simp
      let ?dm1 = "dm\<lparr>current_data := (current_data dm)[j := Some d]\<rparr>"
      let ?dm2 = "?dm1\<lparr>history := (history ?dm1)[j := history_append mp (history ?dm1 ! j) d]\<rparr>"
      have sh: "dm_shape n mp ?dm2" using Cons.prems by (simp add: dm_shape_def)
      from Cons.IH [OF sh, of "Suc j"]
      obtain dm' where r: "update_from (Suc j) ?dm2 b = (None, dm')" "dm_shape n mp dm'"
        "\<forall>i < nat n. history dm' ! i = slot_append mp b (Suc j) i (history ?dm2 ! i)" by blast
      have step: "update_from j dm (a # b) = update_from (Suc j) ?dm2 b"
        using Some True jn Cons.prems by (simp add: dm_shape_def Let_def)
      have "slot_append mp b (Suc j) i (history ?dm2 ! i) = slot_append mp (a # b) j i (history dm ! i)"
        if "i < nat n" for i
      proof (cases "i = j")
        case True
        then show ?thesis using Some jn Cons.prems
          by (simp add: slot_append_def dm_shape_def)
      next
        case False
        then show ?thesis using Some that Cons.prems
          by (auto simp: slot_append_def dm_shape_def nth_Cons' Suc_diff_Suc split: option.splits)
      qed
      then show ?thesis using r step by simp
    next
      case False
      from Cons.IH [OF Cons.prems, of "Suc j"]
      obtain dm' where r: "update_from (Suc j) dm b = (None, dm')" "dm_shape n mp dm'"
        "\<forall>i < nat n. history dm' ! i = slot_append mp b (Suc j) i (history dm ! i)" by blast
      have step: "update_from j dm (a # b) = update_from (Suc j) dm b"
        using Some False Cons.prems by (simp add: dm_shape_def)
      have "slot_append mp (a # b) j i h = slot_append mp b (Suc j) i h" if "i < nat n" for i h
        using that False by (auto simp: slot_append_def nth_Cons' Suc_diff_Suc split: option.splits)
      then show ?thesis using r step by simp
    qed
  qed
qed

lemma update_data_expected:
  assumes "dm_shape n mp dm"
    and "\<forall>i < nat n. history dm ! i = expected_history mp (acc i)"
  shows "\<exists>dm'. update_data b dm = (None, dm') \<and> dm_shape n mp dm'
           \<and> (\<forall>i < nat n. history dm' ! i = expected_history mp (acc i @ channel_samples i [b]))"
proof -
  from update_from_shape [OF assms(1), of 0 b]
  obtain dm' where r: "update_from 0 dm b = (None, dm')" "dm_shape n mp dm'"
    "\<forall>i < nat n. history dm' ! i = slot_append mp b 0 i (history dm ! i)" by blast
  have mp: "0 \<le> mp" using assms(1) by (simp add: dm_shape_def)
  have "slot_append mp b 0 i (expected_history mp (acc i))
      = expected_history mp (acc i @ channel_samples i [b])" for i
    by (auto simp: slot_append_def channel_samples_def history_append_expected [OF mp]
        split: option.splits)
  then show ?thesis using r assms(2) by (simp add: update_data_def)
qed

lemma channel_samples_Cons:
  "channel_samples i (b # bs) = channel_samples i [b] @ channel_samples i bs"
  by (simp add: channel_samples_def)

lemma run_updates_expected:
  assumes "dm_shape n mp dm"
    and "\<forall>i < nat n. history dm ! i = expected_history mp (acc i)"
  shows "\<exists>dm'. run_updates dm batches = (None, dm') \<and> dm_shape n mp dm'
           \<and> (\<forall>i < nat n. history dm' ! i = expected_history mp (acc i @ channel_samples i batches))"
  using assms
proof (induction batches arbitrary: dm acc)
  case Nil
  then show ?case by (simp add: channel_samples_def)
next
  case (Cons b bs)
  from update_data_expected [OF Cons.prems, of b]
  obtain dm1 where u: "update_data b dm = (None, dm1)" "dm_shape n mp dm1"
    "\<forall>i < nat n. history dm1 ! i = expected_history mp (acc i @ channel_samples i [b])" by blast
  from Cons.IH [OF u(2), of "\<lambda>i. acc i @ channel_samples i [b]"] u(3)
  obtain dm' where r: "run_updates dm1 bs = (None, dm')" "dm_shape n mp dm'"
    "\<forall>i < nat n. history dm' ! i
        = expected_history mp ((acc i @ channel_samples i [b]) @ channel_samples i bs)" by blast
  show ?case using u(1) r by (simp add: channel_samples_Cons [of _ b bs])
qed

lemma init_shape:
  assumes "DataManager_init n mp = Inr dm0" and "0 < n"
  shows "dm_shape n mp dm0 \<and> (\<forall>i < nat n. history dm0 ! i = expected_history mp [])"
  using assms
  by (auto simp: DataManager_init_def dm_shape_def expected_history_Nil split: if_splits)

lemma init_ok: "0 \<le> cap \<Longrightarrow> DataManager_init 2 cap = Inr (projr (DataManager_init 2 cap))"
  by (simp add: DataManager_init_def)

section \<open>Facts about the session controller\<close>

lemma append_drivers_ok:
  assumes "\<forall>i \<in> set idx. i < length slaves"
  shows "\<exists>ds. append_drivers slaves idx acc = (None, ds) \<and> length ds = length acc + length idx"
  using assms
proof (induction idx arbitrary: acc)
  case Nil
  then show ?case by simp
next
  case (Cons i idx)
  have "\<forall>i \<in> set idx. i < length slaves" using Cons.prems by simp
  from Cons.IH [OF this, of "acc @ [BrooksDriver_init (Some (slaves ! i)) (int i)]"]
  show ?case using Cons.prems by auto
qed

lemma teardown_frame:
  "stop_event (snd (teardown env ms m)) = stop_event m"
  "cyclic_thread (snd (teardown env ms m)) = cyclic_thread m"
  "adapter (snd (teardown env ms m)) = adapter m"
  by (auto simp: teardown_def Let_def master_close_def split: prod.splits option.splits)

lemma upt_0_2: "[0..<2] = [0, 1]"
  by (simp add: numeral_2_eq_2)

lemma init_unmapped:
  "BrooksDriver_init (Some unmapped_slave) cid =
     \<lparr>slave = Some unmapped_slave, controller_id = cid, full_scale = Fin 30000,
      stored_setpoint = Fin 0\<rparr>"
  by (simp add: BrooksDriver_init_def read_full_scale_def unmapped_slave_def no_sdo_def)

lemma connected_degraded:
  "connected_manager bus_degraded =
     \<lparr>adapter = ''eth0'',
      master = Some \<lparr>m_open = True, m_state = OP_STATE,
                     m_slaves = [mapped_slave zero_frame, mapped_slave zero_frame]\<rparr>,
      drivers = [\<lparr>slave = Some (mapped_slave zero_frame), controller_id = 0,
                  full_scale = Fin 30000, stored_setpoint = Fin 0\<rparr>,
                 \<lparr>slave = Some (mapped_slave zero_frame), controller_id = 1,
                  full_scale = Fin 30000, stored_setpoint = Fin 0\<rparr>],
      cyclic_thread = Some Alive, stop_event = False, conn_state = CONNECTED\<rparr>"
  by (simp add: connected_manager_def connect_def bus_degraded_def EtherCATManager_init_def
      upt_0_2 init_unmapped Let_def SAFEOP_STATE_def OP_STATE_def)
     (simp add: unmapped_slave_def mapped_slave_def)

lemma pack_zero: "struct_pack_fBfI (Fin 0) 0 (Fin 0) 0 = Inr zero_frame"
  by (simp add: struct_eval zero_frame_def)

lemma teardown_broken:
  "fst (teardown bus_broken (the (master (connected_manager bus_degraded)))
          (connected_manager bus_degraded)) = Some ExternalError"
  unfolding connected_degraded
  by (simp add: teardown_def bus_broken_def bus_degraded_def write_setpoint_def mapped_slave_def
      py_max_def py_min_def float_lt_def pack_zero zero_frame_def Let_def)

lemma connected_fault:
  "drivers (connected_manager bus_output_fault) =
     [\<lparr>slave = Some ((mapped_slave zero_frame)\<lparr>output_write_error := Some ExternalError\<rparr>),
       controller_id = 0, full_scale = Fin 30000, stored_setpoint = Fin 0\<rparr>,
      \<lparr>slave = Some ((mapped_slave zero_frame)\<lparr>output_write_error := Some ExternalError\<rparr>),
       controller_id = 1, full_scale = Fin 30000, stored_setpoint = Fin 0\<rparr>]"
  by (simp add: connected_manager_def connect_def bus_output_fault_def bus_degraded_def
      EtherCATManager_init_def upt_0_2 init_unmapped Let_def SAFEOP_STATE_def OP_STATE_def)
     (simp add: unmapped_slave_def mapped_slave_def)

lemma zero_write_raises:
  "fst (write_zero_all (drivers (connected_manager bus_output_fault))) = Some ExternalError"
  unfolding connected_fault
  by (simp add: write_setpoint_def mapped_slave_def py_max_def py_min_def float_lt_def
      pack_zero zero_frame_def Let_def)

section \<open>Properties of the channel driver\<close>

text \<open>
  C5: a frame that is absent or shorter than 13 bytes gives no sample: \<open>read_data\<close>
  returns None, and returns it normally (no exception leaves the method). Absent covers a
  driver without a slave and a slave whose input buffer is None or empty.
\<close>

theorem read_data_short_frame:
  assumes "slave d = None \<or>
     (\<exists>s. slave d = Some s \<and>
        (slave_input s = None \<or> (\<exists>fr. slave_input s = Some fr \<and> length fr < 13)))"
  shows "read_data now d = Inr None"
  using assms by (auto simp: read_data_def)

theorem read_data_short_frame_witness:
  "read_data (Fin 1) (BrooksDriver_init None 0) = Inr None
   \<and> read_data (Fin 1) (BrooksDriver_init (Some unmapped_slave) 0) = Inr None
   \<and> read_data (Fin 1) (BrooksDriver_init (Some (mapped_slave [0, 0, 64, 156, 69, 0, 0, 104, 65, 0, 0, 188])) 0) = Inr None"
proof -
  have n: "slave (BrooksDriver_init None 0) = None"
    by (simp add: BrooksDriver_init_def read_full_scale_def)
  have u: "slave (BrooksDriver_init (Some unmapped_slave) 0) = Some unmapped_slave"
    by (simp add: BrooksDriver_init_def read_full_scale_def unmapped_slave_def no_sdo_def)
  have m: "slave (BrooksDriver_init (Some (mapped_slave fr)) 0) = Some (mapped_slave fr)" for fr
    by (simp add: BrooksDriver_init_def read_full_scale_def mapped_slave_def no_sdo_def)
  have i1: "slave_input unmapped_slave = Some [] \<and> length ([] :: byte list) < 13"
    by (simp add: unmapped_slave_def)
  have i2: "slave_input (mapped_slave [0, 0, 64, 156, 69, 0, 0, 104, 65, 0, 0, 188])
       = Some [0, 0, 64, 156, 69, 0, 0, 104, 65, 0, 0, 188]
     \<and> length ([0, 0, 64, 156, 69, 0, 0, 104, 65, 0, 0, 188] :: byte list) < 13"
    by (simp add: mapped_slave_def)
  show ?thesis
    using read_data_short_frame [of "BrooksDriver_init None 0" "Fin 1"]
      read_data_short_frame [of "BrooksDriver_init (Some unmapped_slave) 0" "Fin 1"]
      read_data_short_frame [of "BrooksDriver_init (Some (mapped_slave [0, 0, 64, 156, 69, 0, 0, 104, 65, 0, 0, 188])) 0" "Fin 1"]
      n u m i1 i2
    by auto
qed

text \<open>
  C10: on a driver whose slave is None or whose output buffer is None or empty,
  \<open>write_setpoint\<close> returns False and leaves the driver, and so the stored setpoint, as
  it was.
\<close>

theorem write_setpoint_unmapped:
  assumes "slave d = None \<or> (\<exists>s. slave d = Some s \<and> (slave_output s = None \<or> slave_output s = Some []))"
  shows "write_setpoint sp d = (Inr False, d)"
  using assms by (auto simp: write_setpoint_def)

theorem write_setpoint_unmapped_witness:
  "write_setpoint (Fin 100) (BrooksDriver_init (Some unmapped_slave) 0)
     = (Inr False, BrooksDriver_init (Some unmapped_slave) 0)
   \<and> get_setpoint (snd (write_setpoint (Fin 100) (BrooksDriver_init (Some unmapped_slave) 0))) = Fin 0
   \<and> write_setpoint (Fin 100) (BrooksDriver_init None 1) = (Inr False, BrooksDriver_init None 1)"
proof -
  have d: "BrooksDriver_init (Some unmapped_slave) 0 =
      \<lparr>slave = Some unmapped_slave, controller_id = 0, full_scale = Fin 30000, stored_setpoint = Fin 0\<rparr>"
    by (simp add: BrooksDriver_init_def read_full_scale_def unmapped_slave_def no_sdo_def)
  have n: "slave (BrooksDriver_init None 1) = None"
    by (simp add: BrooksDriver_init_def read_full_scale_def)
  have h: "slave (BrooksDriver_init (Some unmapped_slave) 0) = None \<or>
      (\<exists>s. slave (BrooksDriver_init (Some unmapped_slave) 0) = Some s \<and>
           (slave_output s = None \<or> slave_output s = Some []))"
    unfolding d by (simp add: unmapped_slave_def)
  show ?thesis
    using write_setpoint_unmapped [OF h, of "Fin 100"]
      write_setpoint_unmapped [of "BrooksDriver_init None 1" "Fin 100"] n
    by (simp add: get_setpoint_def d)
qed

text \<open>
  C2: whatever sequence of \<open>write_setpoint\<close> calls (with any float argument, also
  negative, above the scale, infinite or NaN) and bus updates follows the construction of
  a driver, the stored setpoint returned by \<open>get_setpoint\<close> lies in \<open>[0, full_scale]\<close>.
  On a driver with the default scale 30000 and a mapped output buffer,
  \<open>write_setpoint(-5)\<close> stores 0 and \<open>write_setpoint(50000)\<close> stores 30000.
\<close>

theorem setpoint_always_in_range:
  "setpoint_in_range (run_events (BrooksDriver_init s cid) evs)
   \<and> full_scale (BrooksDriver_init (Some (mapped_slave fr)) cid) = Fin 30000
   \<and> get_setpoint (snd (write_setpoint (Fin (- 5)) (BrooksDriver_init (Some (mapped_slave fr)) cid))) = Fin 0
   \<and> get_setpoint (snd (write_setpoint (Fin 50000) (BrooksDriver_init (Some (mapped_slave fr)) cid))) = Fin 30000"
proof -
  have a: "setpoint_in_range (run_events (BrooksDriver_init s cid) evs)"
    using init_scale_ok init_in_range by (rule run_events_in_range)
  have b: "get_setpoint (snd (write_setpoint (Fin (- 5)) (BrooksDriver_init (Some (mapped_slave fr)) cid))) = Fin 0"
    unfolding init_mapped
    by (simp add: write_setpoint_def mapped_slave_def zero_frame_def py_max_def py_min_def
        float_lt_def get_setpoint_def Let_def split: sum.splits option.splits)
  have c: "get_setpoint (snd (write_setpoint (Fin 50000) (BrooksDriver_init (Some (mapped_slave fr)) cid))) = Fin 30000"
    unfolding init_mapped
    by (simp add: write_setpoint_def mapped_slave_def zero_frame_def py_max_def py_min_def
        float_lt_def get_setpoint_def Let_def split: sum.splits option.splits)
  show ?thesis using a b c by (simp add: init_mapped)
qed

theorem setpoint_always_in_range_witness:
  "setpoint_in_range
     (run_events (BrooksDriver_init (Some (mapped_slave zero_frame)) 0)
        [Write (Fin 100), Write NaN, Write PInf, BusUpdate None None, Write NInf, Write (Fin (- 5))])
   \<and> get_setpoint (snd (write_setpoint (Fin (- 5)) (BrooksDriver_init (Some (mapped_slave zero_frame)) 0))) = Fin 0
   \<and> get_setpoint (snd (write_setpoint (Fin 50000) (BrooksDriver_init (Some (mapped_slave zero_frame)) 0))) = Fin 30000"
  using setpoint_always_in_range [of "Some (mapped_slave zero_frame)" 0
      "[Write (Fin 100), Write NaN, Write PInf, BusUpdate None None, Write NInf, Write (Fin (- 5))]" zero_frame]
  by simp

text \<open>
  C4, as amended: a non-finite setpoint is not rejected. On a driver whose slave has a
  non-empty output buffer that accepts the write, \<open>write_setpoint\<close> returns True and
  stores the clamped value: \<open>full_scale\<close> for +infinity, 0.0 for -infinity and for NaN.
  The counterexample: with 100.0 stored, \<open>write_setpoint(nan)\<close> returns True and the
  stored setpoint becomes 0.0.
\<close>

theorem write_setpoint_non_finite_clamps:
  assumes "d = run_events (BrooksDriver_init s0 cid) evs"
      and "slave d = Some s" and "slave_output s = Some ob" and "ob \<noteq> []"
      and "output_write_error s = None"
      and "x = NaN \<or> x = PInf \<or> x = NInf"
  shows "fst (write_setpoint x d) = Inr True
       \<and> get_setpoint (snd (write_setpoint x d)) = (if x = PInf then full_scale d else Fin 0)"
proof -
  have "scale_ok d" using assms(1) by (simp add: run_events_scale_ok)
  then obtain r where r: "full_scale d = Fin r" "1 \<le> r" "r \<le> 1000000"
    unfolding scale_ok_def using float_range_cases [of 1 "full_scale d" 1000000] by auto
  have clamp: "py_max (Fin 0) (py_min x (full_scale d)) = (if x = PInf then Fin r else Fin 0)"
    using assms(6) r by (auto simp: py_max_def py_min_def float_lt_def)
  obtain b0 where b0: "struct_pack_fBfI (Fin 0) 0 (Fin 0) 0 = Inr b0"
    using struct_pack_ok [of 0] by auto
  obtain b1 where b1: "struct_pack_fBfI (Fin r) 0 (Fin 0) 0 = Inr b1"
    using struct_pack_ok [of r] r by auto
  show ?thesis
    using assms(2-5) clamp b0 b1 r(1)
    by (simp add: write_setpoint_def Let_def get_setpoint_def)
qed

lemma run_write_100:
  "run_events (BrooksDriver_init (Some (mapped_slave zero_frame)) 0) [Write (Fin 100)] =
     \<lparr>slave = Some ((mapped_slave zero_frame)
        \<lparr>slave_output := Some [0, 0, 200, 66, 0, 0, 0, 0, 0, 0, 0, 0, 0]\<rparr>),
      controller_id = 0, full_scale = Fin 30000, stored_setpoint = Fin 100\<rparr>"
  unfolding init_mapped
  by (simp add: run_events_def write_setpoint_def mapped_slave_def zero_frame_def py_max_def
      py_min_def float_lt_def struct_eval float_eval)

theorem write_setpoint_non_finite_clamps_witness:
  "fst (write_setpoint PInf (run_events (BrooksDriver_init (Some (mapped_slave zero_frame)) 0) [Write (Fin 100)])) = Inr True
   \<and> get_setpoint (snd (write_setpoint PInf (run_events (BrooksDriver_init (Some (mapped_slave zero_frame)) 0) [Write (Fin 100)]))) = Fin 30000
   \<and> fst (write_setpoint NInf (run_events (BrooksDriver_init (Some (mapped_slave zero_frame)) 0) [Write (Fin 100)])) = Inr True
   \<and> get_setpoint (snd (write_setpoint NInf (run_events (BrooksDriver_init (Some (mapped_slave zero_frame)) 0) [Write (Fin 100)]))) = Fin 0"
proof -
  let ?d = "run_events (BrooksDriver_init (Some (mapped_slave zero_frame)) 0) [Write (Fin 100)]"
  let ?s = "(mapped_slave zero_frame)\<lparr>slave_output := Some [0, 0, 200, 66, 0, 0, 0, 0, 0, 0, 0, 0, 0]\<rparr>"
  have s: "slave ?d = Some ?s" by (simp add: run_write_100)
  have o: "slave_output ?s = Some [0, 0, 200, 66, 0, 0, 0, 0, 0, 0, 0, 0, 0]" by simp
  have ne: "[0, 0, 200, 66, 0, 0, 0, 0, 0, 0, 0, 0, 0] \<noteq> ([] :: byte list)" by simp
  have w: "output_write_error ?s = None" by (simp add: mapped_slave_def)
  have fs: "full_scale ?d = Fin 30000" by (simp add: run_write_100)
  show ?thesis
    using write_setpoint_non_finite_clamps [OF refl s o ne w, of PInf]
      write_setpoint_non_finite_clamps [OF refl s o ne w, of NInf] fs
    by simp
qed

theorem write_setpoint_nan_counterexample:
  "get_setpoint (run_events (BrooksDriver_init (Some (mapped_slave zero_frame)) 0) [Write (Fin 100)]) = Fin 100
   \<and> fst (write_setpoint NaN (run_events (BrooksDriver_init (Some (mapped_slave zero_frame)) 0) [Write (Fin 100)])) = Inr True
   \<and> get_setpoint (snd (write_setpoint NaN (run_events (BrooksDriver_init (Some (mapped_slave zero_frame)) 0) [Write (Fin 100)]))) = Fin 0"
  unfolding run_write_100
  by (simp add: write_setpoint_def mapped_slave_def py_max_def py_min_def float_lt_def
      get_setpoint_def struct_eval)

text \<open>
  C1, as amended: for every input frame of at least 13 bytes, \<open>read_data\<close> returns a
  sample whose flow is \<open>((raw / 100.0) * full_scale) / 100.0\<close>, computed in binary64 in
  this order from the little-endian float \<open>raw\<close> at bytes [1:5), whose pressure is the
  little-endian float at bytes [5:9), whose temperature is the one at bytes [9:13), and
  whose setpoint is the stored one. With \<open>full_scale = 30000\<close> and \<open>raw = 5000.0\<close> the
  flow is 15000.0 (the witness), not 1500.0 (the counterexample).
\<close>

theorem read_data_decodes:
  assumes "slave d = Some s" and "slave_input s = Some frame" and "13 \<le> length frame"
  shows "\<exists>raw p t q1 q2.
           struct_unpack_f [frame ! 1, frame ! 2, frame ! 3, frame ! 4] = Inr raw
         \<and> struct_unpack_f [frame ! 5, frame ! 6, frame ! 7, frame ! 8] = Inr p
         \<and> struct_unpack_f [frame ! 9, frame ! 10, frame ! 11, frame ! 12] = Inr t
         \<and> float_truediv raw (Fin 100) = Inr q1
         \<and> float_truediv (float_mul q1 (full_scale d)) (Fin 100) = Inr q2
         \<and> read_data now d =
             Inr (Some \<lparr>timestamp = now, flow = q2, pressure = p, temperature = t,
                        setpoint = stored_setpoint d\<rparr>)"
proof -
  have s1: "py_slice 1 5 frame = [frame ! 1, frame ! 2, frame ! 3, frame ! 4]"
    using slice4 [of 1 frame] assms(3) by (simp add: eval_nat_numeral)
  have s5: "py_slice 5 9 frame = [frame ! 5, frame ! 6, frame ! 7, frame ! 8]"
    using slice4 [of 5 frame] assms(3) by simp
  have s9: "py_slice 9 13 frame = [frame ! 9, frame ! 10, frame ! 11, frame ! 12]"
    using slice4 [of 9 frame] assms(3) by simp
  obtain raw where raw: "struct_unpack_f [frame ! 1, frame ! 2, frame ! 3, frame ! 4] = Inr raw"
    by (simp add: struct_unpack_f_def)
  obtain p where p: "struct_unpack_f [frame ! 5, frame ! 6, frame ! 7, frame ! 8] = Inr p"
    by (simp add: struct_unpack_f_def)
  obtain t where t: "struct_unpack_f [frame ! 9, frame ! 10, frame ! 11, frame ! 12] = Inr t"
    by (simp add: struct_unpack_f_def)
  obtain q1 where q1: "float_truediv raw (Fin 100) = Inr q1"
    using truediv_100 by blast
  obtain q2 where q2: "float_truediv (float_mul q1 (full_scale d)) (Fin 100) = Inr q2"
    using truediv_100 by blast
  have ne: "frame \<noteq> []" using assms(3) by auto
  have "read_data now d =
      Inr (Some \<lparr>timestamp = now, flow = q2, pressure = p, temperature = t,
                 setpoint = stored_setpoint d\<rparr>)"
    using assms ne
    by (simp add: read_data_def s1 s5 s9 raw p t q1 q2 bind_r_def del: One_nat_def)
  then show ?thesis using raw p t q1 q2 by blast
qed

theorem read_data_decodes_witness:
  "read_data (Fin 7) (BrooksDriver_init (Some (mapped_slave frame_5000)) 0) =
     Inr (Some \<lparr>timestamp = Fin 7, flow = Fin 15000, pressure = Fin (29 / 2),
                temperature = Fin (47 / 2), setpoint = Fin 0\<rparr>)"
proof -
  let ?d = "BrooksDriver_init (Some (mapped_slave frame_5000)) 0"
  have s: "slave ?d = Some (mapped_slave frame_5000)" by (simp add: init_mapped)
  have i: "slave_input (mapped_slave frame_5000) = Some frame_5000" by (simp add: mapped_slave_def)
  have l: "13 \<le> length frame_5000" by (simp add: frame_5000_def)
  have fs: "full_scale ?d = Fin 30000" "stored_setpoint ?d = Fin 0" by (simp_all add: init_mapped)
  have nth: "frame_5000 ! 1 = 0" "frame_5000 ! 2 = 64" "frame_5000 ! 3 = 156" "frame_5000 ! 4 = 69"
    "frame_5000 ! 5 = 0" "frame_5000 ! 6 = 0" "frame_5000 ! 7 = 104" "frame_5000 ! 8 = 65"
    "frame_5000 ! 9 = 0" "frame_5000 ! 10 = 0" "frame_5000 ! 11 = 188" "frame_5000 ! 12 = 65"
    by (simp_all add: frame_5000_def)
  from read_data_decodes [OF s i l, of "Fin 7"]
  obtain raw p t q1 q2 where
    "struct_unpack_f [0, 64, 156, 69] = Inr raw"
    "struct_unpack_f [0, 0, 104, 65] = Inr p"
    "struct_unpack_f [0, 0, 188, 65] = Inr t"
    "float_truediv raw (Fin 100) = Inr q1"
    "float_truediv (float_mul q1 (Fin 30000)) (Fin 100) = Inr q2"
    "read_data (Fin 7) ?d =
       Inr (Some \<lparr>timestamp = Fin 7, flow = q2, pressure = p, temperature = t, setpoint = Fin 0\<rparr>)"
    unfolding nth fs by blast
  then show ?thesis
    by (auto simp: unpack_5000 unpack_14_5 unpack_23_5 div_5000 flow_5000)
qed

theorem read_data_example_counterexample:
  "full_scale (BrooksDriver_init (Some (mapped_slave frame_5000)) 0) = Fin 30000
   \<and> struct_unpack_f (py_slice 1 5 frame_5000) = Inr (Fin 5000)
   \<and> map_option flow (projr (read_data (Fin 7) (BrooksDriver_init (Some (mapped_slave frame_5000)) 0)))
       = Some (Fin 15000)
   \<and> map_option flow (projr (read_data (Fin 7) (BrooksDriver_init (Some (mapped_slave frame_5000)) 0)))
       \<noteq> Some (Fin 1500)"
  unfolding init_mapped
  by (simp add: read_data_def mapped_slave_def frame_5000_def py_slice_def bind_r_def
      unpack_5000 unpack_14_5 unpack_23_5 div_5000 flow_5000)

text \<open>The order of the operations matters in binary64: for the raw value 7.0 and the scale
  30000.0 the source's \<open>(raw / 100.0 * scale) / 100.0\<close> is 21.0, while
  \<open>(raw / 100.0 / 100.0) * scale\<close> is 21.000000000000004.\<close>

lemma flow_order_matters:
  "float_truediv (Fin 7) (Fin 100) = Inr (Fin (1261007895663739 / 18014398509481984))
   \<and> float_truediv (float_mul (Fin (1261007895663739 / 18014398509481984)) (Fin 30000)) (Fin 100)
       = Inr (Fin 21)
   \<and> float_truediv (Fin (1261007895663739 / 18014398509481984)) (Fin 100)
       = Inr (Fin (807045053224793 / 1152921504606846976))
   \<and> float_mul (Fin (807045053224793 / 1152921504606846976)) (Fin 30000)
       = Fin (5910974510923777 / 281474976710656)"
  by (simp add: float_eval)

text \<open>
  C8: scale discovery at construction. When the object read returns at least 4 bytes, the
  little-endian float \<open>f\<close> of the first four is stored as \<open>full_scale\<close> if
  \<open>1.0 <= f <= 1000000.0\<close>, and the default 30000.0 stays otherwise (NaN and the
  infinities are out of range). When there is no slave, the read raises, returns None or
  returns fewer than 4 bytes, the default 30000.0 stays. In every case the constructor
  returns a driver with the slave, the id and the setpoint 0.0.
\<close>

theorem scale_discovery:
  "(\<forall>sl data. s = Some sl
       \<and> sdo_read sl SDO_FULL_SCALE_INDEX SDO_FULL_SCALE_SUBINDEX 4 = Inr (Some data)
       \<and> 4 \<le> length data \<longrightarrow>
       (\<exists>f. struct_unpack_f [data ! 0, data ! 1, data ! 2, data ! 3] = Inr f
          \<and> full_scale (BrooksDriver_init s cid) =
              (if float_le (Fin 1) f \<and> float_le f (Fin 1000000) then f else Fin 30000)))
   \<and> (s = None
       \<or> (\<exists>sl. s = Some sl
            \<and> ((\<exists>e. sdo_read sl SDO_FULL_SCALE_INDEX SDO_FULL_SCALE_SUBINDEX 4 = Inl e)
               \<or> sdo_read sl SDO_FULL_SCALE_INDEX SDO_FULL_SCALE_SUBINDEX 4 = Inr None
               \<or> (\<exists>data. sdo_read sl SDO_FULL_SCALE_INDEX SDO_FULL_SCALE_SUBINDEX 4
                            = Inr (Some data) \<and> length data < 4)))
       \<longrightarrow> full_scale (BrooksDriver_init s cid) = Fin 30000)
   \<and> slave (BrooksDriver_init s cid) = s
   \<and> controller_id (BrooksDriver_init s cid) = cid
   \<and> stored_setpoint (BrooksDriver_init s cid) = Fin 0"
proof -
  have a: "\<exists>f. struct_unpack_f [data ! 0, data ! 1, data ! 2, data ! 3] = Inr f
          \<and> full_scale (BrooksDriver_init s cid) =
              (if float_le (Fin 1) f \<and> float_le f (Fin 1000000) then f else Fin 30000)"
    if "s = Some sl"
      and "sdo_read sl SDO_FULL_SCALE_INDEX SDO_FULL_SCALE_SUBINDEX 4 = Inr (Some data)"
      and "4 \<le> length data" for sl data
  proof -
    have sl: "py_slice 0 4 data = [data ! 0, data ! 1, data ! 2, data ! 3]"
      using slice4 [of 0 data] that(3) by (simp add: eval_nat_numeral)
    obtain f where f: "struct_unpack_f [data ! 0, data ! 1, data ! 2, data ! 3] = Inr f"
      by (simp add: struct_unpack_f_def)
    show ?thesis using that f by (simp add: init_full_scale sl)
  qed
  have b: "full_scale (BrooksDriver_init s cid) = Fin 30000"
    if "s = None
       \<or> (\<exists>sl. s = Some sl
            \<and> ((\<exists>e. sdo_read sl SDO_FULL_SCALE_INDEX SDO_FULL_SCALE_SUBINDEX 4 = Inl e)
               \<or> sdo_read sl SDO_FULL_SCALE_INDEX SDO_FULL_SCALE_SUBINDEX 4 = Inr None
               \<or> (\<exists>data. sdo_read sl SDO_FULL_SCALE_INDEX SDO_FULL_SCALE_SUBINDEX 4
                            = Inr (Some data) \<and> length data < 4)))"
    using that by (auto simp: init_full_scale)
  show ?thesis using a b by (simp add: init_fields)
qed

theorem scale_discovery_witness:
  "full_scale (BrooksDriver_init (Some (reply_slave [0, 96, 234, 70])) 0) = Fin 30000
   \<and> full_scale (BrooksDriver_init (Some (reply_slave [0, 64, 156, 69])) 0) = Fin 5000
   \<and> full_scale (BrooksDriver_init (Some (reply_slave [0, 0, 0, 63])) 0) = Fin 30000
   \<and> full_scale (BrooksDriver_init (Some (reply_slave [0, 64, 156])) 0) = Fin 30000
   \<and> full_scale (BrooksDriver_init (Some unmapped_slave) 0) = Fin 30000
   \<and> full_scale (BrooksDriver_init None 0) = Fin 30000"
proof -
  have d: "sdo_read unmapped_slave SDO_FULL_SCALE_INDEX SDO_FULL_SCALE_SUBINDEX 4 = Inl ExternalError"
    by (simp add: unmapped_slave_def no_sdo_def)
  have l: "length ([0, 64, 156] :: byte list) < 4" by simp
  show ?thesis
    using scale_discovery [of "Some (reply_slave [0, 96, 234, 70])" 0]
      scale_discovery [of "Some (reply_slave [0, 64, 156, 69])" 0]
      scale_discovery [of "Some (reply_slave [0, 0, 0, 63])" 0]
      scale_discovery [of "Some (reply_slave [0, 64, 156])" 0]
      scale_discovery [of "Some unmapped_slave" 0]
      scale_discovery [of None 0] d l
    by (auto simp: reply_slave_sdo unpack_30000 unpack_5000 unpack_0_5 float_le_def)
qed

section \<open>Properties of the recording session\<close>

text \<open>
  C7, as amended: \<open>start_recording\<close> fails whenever the destination cannot be opened
  while no recording is in progress, in every state a session can reach: it returns
  False, the recording flag stays inactive, and the session is as it was except for the
  stored file path, which is the new destination. It has no check for a recording in
  progress: whenever the destination can be opened and written, it returns True with
  recording active on the new file, also when it was already recording (the
  counterexample). What an open failure does during a recording is not part of this
  statement.
\<close>

theorem start_recording_outcomes:
  "(r = run_recorder (DataRecorder_init b) ops \<and> \<not> is_recording r
      \<and> file_open_error env fp \<noteq> None \<longrightarrow>
      start_recording env fp n r = (Inr False, r\<lparr>rec_filepath := Some fp\<rparr>))
   \<and> (file_open_error env fp = None \<and> writerow_error env = None \<and> flush_error env = None \<longrightarrow>
      fst (start_recording env fp n r) = Inr True
    \<and> is_recording (snd (start_recording env fp n r))
    \<and> rec_buffer (snd (start_recording env fp n r)) = []
    \<and> rec_writer (snd (start_recording env fp n r)) = Some Writer
    \<and> rec_file (snd (start_recording env fp n r))
        = Some \<lparr>f_path = fp, f_closed = False, f_pending = [], f_rows = [csv_header n]\<rparr>
    \<and> rec_filepath (snd (start_recording env fp n r)) = Some fp)"
proof -
  have a: "start_recording env fp n r = (Inr False, r\<lparr>rec_filepath := Some fp\<rparr>)"
    if "r = run_recorder (DataRecorder_init b) ops" and "\<not> is_recording r"
      and "file_open_error env fp \<noteq> None"
  proof -
    have "is_recording r \<or> no_open_file r"
      unfolding that(1) using init_idle [of b] by (intro run_recorder_idle) simp
    then have "no_open_file (r\<lparr>rec_filepath := Some fp\<rparr>)"
      using that(2) by (simp add: no_open_file_def)
    then have "start_failed env (r\<lparr>rec_filepath := Some fp\<rparr>) = (Inr False, r\<lparr>rec_filepath := Some fp\<rparr>)"
      by (rule start_failed_idle)
    then show ?thesis using that(3) by (auto simp: start_recording_def Let_def)
  qed
  have b: "fst (start_recording env fp n r) = Inr True
    \<and> is_recording (snd (start_recording env fp n r))
    \<and> rec_buffer (snd (start_recording env fp n r)) = []
    \<and> rec_writer (snd (start_recording env fp n r)) = Some Writer
    \<and> rec_file (snd (start_recording env fp n r))
        = Some \<lparr>f_path = fp, f_closed = False, f_pending = [], f_rows = [csv_header n]\<rparr>
    \<and> rec_filepath (snd (start_recording env fp n r)) = Some fp"
    if "file_open_error env fp = None" and "writerow_error env = None" and "flush_error env = None"
    using that by (simp add: start_recording_def Let_def file_writerows_def file_flush_def)
  show ?thesis using a b by blast
qed

theorem start_recording_outcomes_witness:
  "start_recording io_no_open ''run.csv'' 2 (DataRecorder_init 100)
     = (Inr False, (DataRecorder_init 100)\<lparr>rec_filepath := Some ''run.csv''\<rparr>)
   \<and> is_recording (snd (start_recording io_no_open ''run.csv'' 2 (DataRecorder_init 100))) = False
   \<and> start_recording io_all_fail ''run.csv'' 2
        (run_recorder (DataRecorder_init 100) [Start io_ok ''a.csv'' 2, Stop io_ok])
     = (Inr False,
        \<lparr>buffer_size = 100, rec_file = None, rec_writer = None, rec_buffer = [],
         is_recording = False, rec_filepath = Some ''run.csv''\<rparr>)
   \<and> fst (start_recording io_ok ''run.csv'' 2 (DataRecorder_init 100)) = Inr True
   \<and> is_recording (snd (start_recording io_ok ''run.csv'' 2 (DataRecorder_init 100)))"
proof -
  have e: "DataRecorder_init 100 = run_recorder (DataRecorder_init 100) []"
    by (simp add: run_recorder_def)
  have i: "\<not> is_recording (DataRecorder_init 100)" by (simp add: DataRecorder_init_def)
  have s: "\<not> is_recording (run_recorder (DataRecorder_init 100) [Start io_ok ''a.csv'' 2, Stop io_ok])"
    by (simp add: stopped)
  have o: "file_open_error io_no_open ''run.csv'' \<noteq> None" "file_open_error io_all_fail ''run.csv'' \<noteq> None"
    by (simp_all add: io_no_open_def io_all_fail_def)
  have k: "file_open_error io_ok ''run.csv'' = None" "writerow_error io_ok = None" "flush_error io_ok = None"
    by (simp_all add: io_ok_def)
  show ?thesis
    using start_recording_outcomes [of "DataRecorder_init 100" 100 "[]" io_no_open "''run.csv''" 2]
      start_recording_outcomes [of "run_recorder (DataRecorder_init 100) [Start io_ok ''a.csv'' 2, Stop io_ok]"
        100 "[Start io_ok ''a.csv'' 2, Stop io_ok]" io_all_fail "''run.csv''" 2]
      start_recording_outcomes [of "DataRecorder_init 100" 100 "[]" io_ok "''run.csv''" 2]
      e i s o k
    by (simp add: stopped)
qed

theorem start_recording_counterexample:
  "is_recording (snd (start_recording io_ok ''a.csv'' 2 (DataRecorder_init 100)))
   \<and> fst (start_recording io_ok ''b.csv'' 2
            (snd (start_recording io_ok ''a.csv'' 2 (DataRecorder_init 100)))) = Inr True
   \<and> rec_filepath (DataRecorder_init 100) = None
   \<and> fst (start_recording io_no_open ''b.csv'' 2 (DataRecorder_init 100)) = Inr False
   \<and> rec_filepath (snd (start_recording io_no_open ''b.csv'' 2 (DataRecorder_init 100)))
       = Some ''b.csv''"
  unfolding started
  by (simp add: start_recording_def io_no_open_def start_failed_def DataRecorder_init_def Let_def)

section \<open>Properties of the telemetry store\<close>

text \<open>
  C6: for a manager built with \<open>n\<close> channels and capacity \<open>cap\<close>, after any sequence of
  \<open>update_data\<close> calls the history of a channel \<open>i\<close> holds, in each of its five columns,
  exactly the last \<open>cap\<close> samples that the batches carried for that channel, in insertion
  order; in particular no column is ever longer than \<open>cap\<close>, and once \<open>cap + k\<close> samples
  were appended the \<open>k\<close> oldest are gone. No update raises. The witness runs capacity 2
  over three batches, and bounds the length by 200 for the default capacity.
\<close>

theorem history_bounded_and_latest:
  assumes "DataManager_init n cap = Inr dm0" and "0 \<le> i" and "i < n"
  shows "\<exists>dm. run_updates dm0 batches = (None, dm)
     \<and> get_history i dm =
         Some \<lparr>h_time = map timestamp (last_n (nat cap) (channel_samples (nat i) batches)),
               h_flow = map flow (last_n (nat cap) (channel_samples (nat i) batches)),
               h_pressure = map pressure (last_n (nat cap) (channel_samples (nat i) batches)),
               h_temperature = map temperature (last_n (nat cap) (channel_samples (nat i) batches)),
               h_setpoint = map setpoint (last_n (nat cap) (channel_samples (nat i) batches))\<rparr>
     \<and> length (h_time (history dm ! nat i)) \<le> nat cap
     \<and> length (h_flow (history dm ! nat i)) \<le> nat cap
     \<and> length (h_pressure (history dm ! nat i)) \<le> nat cap
     \<and> length (h_temperature (history dm ! nat i)) \<le> nat cap
     \<and> length (h_setpoint (history dm ! nat i)) \<le> nat cap"
proof -
  have n: "0 < n" using assms(2,3) by simp
  have sh: "dm_shape n cap dm0" "\<forall>i < nat n. history dm0 ! i = expected_history cap ([] :: ControllerData list)"
    using init_shape [OF assms(1) n] by simp_all
  from run_updates_expected [OF sh(1), of "\<lambda>i. []" batches] sh(2)
  obtain dm where r: "run_updates dm0 batches = (None, dm)" "dm_shape n cap dm"
    "\<forall>i < nat n. history dm ! i = expected_history cap (channel_samples i batches)" by auto
  have i: "nat i < nat n" using assms(2,3) by simp
  have h: "history dm ! nat i = expected_history cap (channel_samples (nat i) batches)"
    using r(3) i by simp
  have g: "get_history i dm = Some (history dm ! nat i)"
    using assms(2,3) r(2) by (simp add: get_history_def dm_shape_def)
  show ?thesis
    using r(1) g h by (simp add: expected_history_def length_last_n)
qed

theorem history_bounded_and_latest_witness:
  "fst (run_updates (projr (DataManager_init 2 2)) three_batches) = None
   \<and> map_option h_time
        (get_history 0 (snd (run_updates (projr (DataManager_init 2 2)) three_batches)))
       = Some [Fin 2, Fin 3]
   \<and> map_option h_flow
        (get_history 0 (snd (run_updates (projr (DataManager_init 2 2)) three_batches)))
       = Some [Fin 20, Fin 30]
   \<and> map_option h_time
        (get_history 1 (snd (run_updates (projr (DataManager_init 2 2)) three_batches)))
       = Some [Fin 5]
   \<and> (\<forall>batches.
        length (h_time (history
          (snd (run_updates (projr (DataManager_init 2 MAX_HISTORY_POINTS)) batches)) ! 0)) \<le> 200)"
proof -
  have i2: "DataManager_init 2 2 = Inr (projr (DataManager_init 2 2))"
    by (rule init_ok) simp
  have i200: "DataManager_init 2 MAX_HISTORY_POINTS = Inr (projr (DataManager_init 2 MAX_HISTORY_POINTS))"
    by (rule init_ok) (simp add: MAX_HISTORY_POINTS_def)
  have c0: "channel_samples 0 three_batches = [sample_at 1, sample_at 2, sample_at 3]"
    by (simp add: channel_samples_def three_batches_def)
  have c1: "channel_samples (Suc 0) three_batches = [sample_at 5]"
    by (simp add: channel_samples_def three_batches_def)
  have a: "fst (run_updates (projr (DataManager_init 2 2)) three_batches) = None
      \<and> map_option h_time
          (get_history 0 (snd (run_updates (projr (DataManager_init 2 2)) three_batches)))
         = Some [Fin 2, Fin 3]
      \<and> map_option h_flow
          (get_history 0 (snd (run_updates (projr (DataManager_init 2 2)) three_batches)))
         = Some [Fin 20, Fin 30]"
    using history_bounded_and_latest [OF i2, of 0 three_batches]
    by (auto simp: c0 last_n_def sample_at_def)
  have b: "map_option h_time
          (get_history 1 (snd (run_updates (projr (DataManager_init 2 2)) three_batches)))
         = Some [Fin 5]"
    using history_bounded_and_latest [OF i2, of 1 three_batches]
    by (auto simp: c1 last_n_def sample_at_def)
  have c: "length (h_time (history
          (snd (run_updates (projr (DataManager_init 2 MAX_HISTORY_POINTS)) batches)) ! 0)) \<le> 200"
    for batches
    using history_bounded_and_latest [OF i200, of 0 batches]
    by (auto simp: MAX_HISTORY_POINTS_def)
  show ?thesis using a b c by blast
qed

section \<open>Properties of the session controller\<close>

text \<open>
  C3: when creating the master, opening the adapter, the configuration, the mapping, the
  clock setup, the Safe-Operational check, the start of the cyclic thread and the request
  of Operational all succeed, at least the expected number of devices was found, and the
  final state check returns a state other than Operational, \<open>connect\<close> returns True with
  the status message that names the state reached, and the connection state is Connected,
  not Error: the degraded outcome counts as connected.
\<close>

theorem connect_degraded_is_connected:
  assumes "master_new_error env = None" and "bus_open_error env = None"
    and "config_init_result env = Inr slave_count" and "n \<le> slave_count"
    and "nat n \<le> length (discovered_slaves env)"
    and "config_map_error env = None" and "config_dc_error env = None"
    and "safeop_check env = Inr reached" and "thread_start_error env = None"
    and "write_state_error env = None"
    and "op_check env = Inr actual_state" and "actual_state \<noteq> OP_STATE"
  shows "fst (connect env n m) = (True, ConnectedInState actual_state)
       \<and> conn_state (snd (connect env n m)) = CONNECTED
       \<and> length (drivers (snd (connect env n m))) = nat n"
proof -
  have "\<forall>i \<in> set [0..<nat n]. i < length (discovered_slaves env)"
    using assms(5) by auto
  from append_drivers_ok [OF this, of "[]"]
  obtain ds where ds: "append_drivers (discovered_slaves env) [0..<nat n] [] = (None, ds)"
    "length ds = nat n" by auto
  show ?thesis
    using assms ds by (simp add: connect_def Let_def)
qed

theorem connect_degraded_is_connected_witness:
  "fst (connect bus_degraded 2 (EtherCATManager_init ''eth0'')) = (True, ConnectedInState SAFEOP_STATE)
   \<and> conn_state (snd (connect bus_degraded 2 (EtherCATManager_init ''eth0''))) = CONNECTED
   \<and> length (drivers (snd (connect bus_degraded 2 (EtherCATManager_init ''eth0'')))) = 2"
proof -
  have ne: "SAFEOP_STATE \<noteq> OP_STATE" by (simp add: SAFEOP_STATE_def OP_STATE_def)
  have le: "(2::int) \<le> 2" by simp
  have len: "nat 2 \<le> length (discovered_slaves bus_degraded)" by (simp add: bus_degraded_def)
  show ?thesis
    using connect_degraded_is_connected [of bus_degraded 2 2 SAFEOP_STATE SAFEOP_STATE
        "EtherCATManager_init ''eth0''", OF _ _ _ le len _ _ _ _ _ _ ne]
    by (simp add: bus_degraded_def)
qed

text \<open>
  C9: \<open>disconnect\<close> ends, for every state of the manager and every answer of the bus
  (whichever of the zero-setpoint writes, the Init request and the close raises), with
  the connection state Disconnected, the driver list empty and the master released. A
  second \<open>disconnect\<close> ends in the same way, and changes nothing at all unless the cyclic
  thread outlived the first one; on a manager that never connected it only sets the stop
  flag. No path of \<open>disconnect\<close> lets an exception out: every call that can raise is
  inside \<open>try ... except Exception\<close>.
\<close>

theorem disconnect_reaches_disconnected:
  "conn_state (disconnect env m) = DISCONNECTED
   \<and> drivers (disconnect env m) = []
   \<and> master (disconnect env m) = None
   \<and> stop_event (disconnect env m)
   \<and> conn_state (disconnect env' (disconnect env m)) = DISCONNECTED
   \<and> drivers (disconnect env' (disconnect env m)) = []
   \<and> master (disconnect env' (disconnect env m)) = None
   \<and> (cyclic_thread (disconnect env m) \<noteq> Some Alive \<longrightarrow>
        disconnect env' (disconnect env m) = disconnect env m)
   \<and> disconnect env (EtherCATManager_init a) = (EtherCATManager_init a)\<lparr>stop_event := True\<rparr>"
  by (auto simp: disconnect_def Let_def EtherCATManager_init_def teardown_frame
      split: option.splits)

theorem disconnect_reaches_disconnected_witness:
  "conn_state (connected_manager bus_degraded) = CONNECTED
   \<and> fst (teardown bus_broken (the (master (connected_manager bus_degraded)))
            (connected_manager bus_degraded)) = Some ExternalError
   \<and> fst (write_zero_all (drivers (connected_manager bus_output_fault))) = Some ExternalError
   \<and> conn_state (disconnect bus_broken (connected_manager bus_degraded)) = DISCONNECTED
   \<and> drivers (disconnect bus_broken (connected_manager bus_degraded)) = []
   \<and> master (disconnect bus_broken (connected_manager bus_degraded)) = None
   \<and> conn_state (disconnect bus_degraded (connected_manager bus_output_fault)) = DISCONNECTED
   \<and> cyclic_thread (disconnect bus_degraded (connected_manager bus_degraded)) = Some Finished
   \<and> disconnect bus_broken (disconnect bus_degraded (connected_manager bus_degraded))
       = disconnect bus_degraded (connected_manager bus_degraded)
   \<and> disconnect bus_broken (EtherCATManager_init ''eth0'')
       = (EtherCATManager_init ''eth0'')\<lparr>stop_event := True\<rparr>"
proof -
  have c: "conn_state (connected_manager bus_degraded) = CONNECTED"
    by (simp add: connected_degraded)
  have t: "cyclic_thread (disconnect bus_degraded (connected_manager bus_degraded)) = Some Finished"
    unfolding disconnect_def connected_degraded
    by (simp add: Let_def teardown_frame bus_degraded_def)
  show ?thesis
    using disconnect_reaches_disconnected [of bus_broken "connected_manager bus_degraded" bus_broken "''eth0''"]
      disconnect_reaches_disconnected [of bus_degraded "connected_manager bus_output_fault" bus_broken "''eth0''"]
      disconnect_reaches_disconnected [of bus_degraded "connected_manager bus_degraded" bus_broken "''eth0''"]
      c t teardown_broken zero_write_raises
    by simp
qed

end
